theory Spec2Isabelle
  imports Complex_Main
begin

section \<open>Grating interferometry: harmonic extraction in the frequency domain\<close>

text \<open>
  A shallow embedding of \<^verbatim>\<open>wavepy/grating_interferometry.py\<close>.

  Conventions of the embedding.
  \<^item> Python integers (image extents, periods, harmonic indices, the search radius) are
    \<open>int\<close>; \<^verbatim>\<open>//\<close> is \<open>div\<close> (both round towards minus infinity).
  \<^item> A float is an \<open>npfloat\<close>: a finite value (an exact real: rounding, overflow and the
    sign of zero are not represented) or one of the special values inf, -inf, nan.
  \<^item> A two-dimensional array is its shape together with its items.
  \<^item> The Fourier transforms, the magnitude and the phase angle of an array element, the
    finiteness test and the phase unwrapping are library calls: they are the fields of a
    record \<open>numpy_ops\<close> that every function takes as its first argument.
  \<^item> An exception is a value \<open>Inl e\<close> of the result.
  \<^item> Console messages and plots do not change any returned value and are left out;
    the harmonic identifier \<^verbatim>\<open>harmonic_ij\<close> is taken after \<^verbatim>\<open>int()\<close>, as a pair.
  \<^item> A period is an integer: for \<^verbatim>\<open>None\<close> the comparison \<^verbatim>\<open>periodVert <= 0\<close> raises a
    TypeError before \<^verbatim>\<open>periodVert is None\<close> is evaluated, and this is not represented.
  \<^item> A leading underscore of a Python name is dropped.
\<close>

subsection \<open>Errors, floats, arrays\<close>

datatype error = ValueError | IndexError | SystemExit

datatype npfloat = Fin real | PInf | NInf | NaN

fun fmul :: "npfloat \<Rightarrow> npfloat \<Rightarrow> npfloat" where
  "fmul (Fin a) (Fin b) = Fin (a * b)"
| "fmul (Fin a) PInf = (if 0 < a then PInf else if a < 0 then NInf else NaN)"
| "fmul (Fin a) NInf = (if 0 < a then NInf else if a < 0 then PInf else NaN)"
| "fmul PInf (Fin b) = (if 0 < b then PInf else if b < 0 then NInf else NaN)"
| "fmul NInf (Fin b) = (if 0 < b then NInf else if b < 0 then PInf else NaN)"
| "fmul PInf PInf = PInf"
| "fmul PInf NInf = NInf"
| "fmul NInf PInf = NInf"
| "fmul NInf NInf = PInf"
| "fmul NaN _ = NaN"
| "fmul _ NaN = NaN"

text \<open>Division; a finite zero divisor is the float \<^verbatim>\<open>+0.0\<close> (numpy warns and goes on).\<close>

fun fdiv :: "npfloat \<Rightarrow> npfloat \<Rightarrow> npfloat" where
  "fdiv (Fin a) (Fin b) =
     (if b \<noteq> 0 then Fin (a / b)
      else if 0 < a then PInf else if a < 0 then NInf else NaN)"
| "fdiv (Fin a) PInf = Fin 0"
| "fdiv (Fin a) NInf = Fin 0"
| "fdiv PInf (Fin b) = (if 0 \<le> b then PInf else NInf)"
| "fdiv NInf (Fin b) = (if 0 \<le> b then NInf else PInf)"
| "fdiv PInf PInf = NaN"
| "fdiv PInf NInf = NaN"
| "fdiv NInf PInf = NaN"
| "fdiv NInf NInf = NaN"
| "fdiv NaN _ = NaN"
| "fdiv _ NaN = NaN"

fun fsub :: "npfloat \<Rightarrow> npfloat \<Rightarrow> npfloat" where
  "fsub (Fin a) (Fin b) = Fin (a - b)"
| "fsub (Fin a) PInf = NInf"
| "fsub (Fin a) NInf = PInf"
| "fsub PInf (Fin b) = PInf"
| "fsub NInf (Fin b) = NInf"
| "fsub PInf PInf = NaN"
| "fsub PInf NInf = PInf"
| "fsub NInf PInf = NInf"
| "fsub NInf NInf = NaN"
| "fsub NaN _ = NaN"
| "fsub _ NaN = NaN"

text \<open>\<^verbatim>\<open>==\<close> on floats: nan is equal to nothing.\<close>

fun feq :: "npfloat \<Rightarrow> npfloat \<Rightarrow> bool" where
  "feq NaN _ = False"
| "feq _ NaN = False"
| "feq a b = (a = b)"

text \<open>The order of the floats that are not nan.\<close>

fun fle :: "npfloat \<Rightarrow> npfloat \<Rightarrow> bool" where
  "fle (Fin a) (Fin b) = (a \<le> b)"
| "fle NInf _ = True"
| "fle _ PInf = True"
| "fle _ _ = False"

text \<open>One step of \<^verbatim>\<open>np.max\<close>, which propagates nan.\<close>

fun fmax :: "npfloat \<Rightarrow> npfloat \<Rightarrow> npfloat" where
  "fmax NaN _ = NaN"
| "fmax _ NaN = NaN"
| "fmax a b = (if fle a b then b else a)"

record 'a ndarray =
  nrows :: nat
  ncols :: nat
  item :: "nat \<Rightarrow> nat \<Rightarrow> 'a"

definition shape :: "'a ndarray \<Rightarrow> nat \<times> nat" where
  "shape a = (nrows a, ncols a)"

text \<open>The index pairs of an array in row-major (C) order.\<close>

definition positions :: "'a ndarray \<Rightarrow> (nat \<times> nat) list" where
  "positions a = List.product [0..<nrows a] [0..<ncols a]"

definition flat :: "'a ndarray \<Rightarrow> 'a list" where
  "flat a = map (\<lambda>(i, j). item a i j) (positions a)"

definition map_arr :: "('a \<Rightarrow> 'b) \<Rightarrow> 'a ndarray \<Rightarrow> 'b ndarray" where
  "map_arr f a = \<lparr>nrows = nrows a, ncols = ncols a, item = (\<lambda>i j. f (item a i j))\<rparr>"

definition full :: "nat \<Rightarrow> nat \<Rightarrow> 'a \<Rightarrow> 'a ndarray" where
  "full r c v = \<lparr>nrows = r, ncols = c, item = (\<lambda>i j. v)\<rparr>"

text \<open>
  The bounds of the Python slice \<^verbatim>\<open>lo:hi\<close> on an axis of extent \<open>n\<close>: a negative bound
  counts from the end, and every bound is clipped to the axis. The slice selects the
  indices \<open>l \<le> i < h\<close> of the pair returned, none when \<open>h \<le> l\<close>.
\<close>

definition slice_clip :: "int \<Rightarrow> nat \<Rightarrow> nat" where
  "slice_clip k n = (if k < 0 then nat (max (k + int n) 0) else nat (min k (int n)))"

definition slice_bounds :: "int \<Rightarrow> int \<Rightarrow> nat \<Rightarrow> nat \<times> nat" where
  "slice_bounds lo hi n = (slice_clip lo n, slice_clip hi n)"

text \<open>\<^verbatim>\<open>a[lo0:hi0, lo1:hi1]\<close>\<close>

definition getslice :: "'a ndarray \<Rightarrow> int \<Rightarrow> int \<Rightarrow> int \<Rightarrow> int \<Rightarrow> 'a ndarray" where
  "getslice a lo0 hi0 lo1 hi1 =
     (let (l0, h0) = slice_bounds lo0 hi0 (nrows a);
          (l1, h1) = slice_bounds lo1 hi1 (ncols a)
      in \<lparr>nrows = h0 - l0, ncols = h1 - l1,
          item = (\<lambda>i j. item a (l0 + i) (l1 + j))\<rparr>)"

text \<open>\<^verbatim>\<open>a[lo0:hi0, lo1:hi1] = v\<close>\<close>

definition setslice :: "'a ndarray \<Rightarrow> int \<Rightarrow> int \<Rightarrow> int \<Rightarrow> int \<Rightarrow> 'a \<Rightarrow> 'a ndarray" where
  "setslice a lo0 hi0 lo1 hi1 v =
     (let (l0, h0) = slice_bounds lo0 hi0 (nrows a);
          (l1, h1) = slice_bounds lo1 hi1 (ncols a)
      in a\<lparr>item := (\<lambda>i j. if l0 \<le> i \<and> i < h0 \<and> l1 \<le> j \<and> j < h1 then v
                            else item a i j)\<rparr>)"

text \<open>
  An element-wise binary operation with numpy's broadcasting of two-dimensional
  operands: on each axis the extents are equal or one of them is 1, else ValueError.
\<close>

definition bdim :: "nat \<Rightarrow> nat \<Rightarrow> error + nat" where
  "bdim m n = (if m = n then Inr m else if m = 1 then Inr n else if n = 1 then Inr m
               else Inl ValueError)"

definition bidx :: "nat \<Rightarrow> nat \<Rightarrow> nat \<Rightarrow> nat" where
  "bidx m n i = (if m = n then i else if m = 1 then 0 else i)"

definition elementwise ::
  "('a \<Rightarrow> 'b \<Rightarrow> 'c) \<Rightarrow> 'a ndarray \<Rightarrow> 'b ndarray \<Rightarrow> error + 'c ndarray" where
  "elementwise f a b =
     (case bdim (nrows a) (nrows b) of Inl e \<Rightarrow> Inl e
      | Inr r \<Rightarrow>
        (case bdim (ncols a) (ncols b) of Inl e \<Rightarrow> Inl e
         | Inr c \<Rightarrow>
           Inr \<lparr>nrows = r, ncols = c,
                item = (\<lambda>i j. f (item a (bidx (nrows a) (nrows b) i)
                                         (bidx (ncols a) (ncols b) j))
                                 (item b (bidx (nrows b) (nrows a) i)
                                         (bidx (ncols b) (ncols a) j)))\<rparr>))"

text \<open>\<^verbatim>\<open>np.max\<close> of an array: ValueError on an array without items.\<close>

definition np_max :: "npfloat ndarray \<Rightarrow> error + npfloat" where
  "np_max a = (case flat a of [] \<Rightarrow> Inl ValueError | x # xs \<Rightarrow> Inr (fold (\<lambda>y m. fmax m y) xs x))"

text \<open>\<^verbatim>\<open>np.where(a == m)\<close>: the matching index pairs in row-major order.\<close>

definition np_where_eq :: "npfloat ndarray \<Rightarrow> npfloat \<Rightarrow> (nat \<times> nat) list" where
  "np_where_eq a m = filter (\<lambda>(i, j). feq (item a i j) m) (positions a)"

subsection \<open>The library calls\<close>

record 'a numpy_ops =
  np_abs :: "'a \<Rightarrow> npfloat"
  np_angle :: "'a \<Rightarrow> npfloat"
  np_isfinite :: "'a \<Rightarrow> bool"
  fft2_shift :: "'a ndarray \<Rightarrow> 'a ndarray"
  ifft2_ishift :: "'a ndarray \<Rightarrow> 'a ndarray"
  unwrap_phase :: "npfloat ndarray \<Rightarrow> npfloat ndarray"
  exp_zero :: "'a"

text \<open>
  \<open>fft2_shift\<close> is \<^verbatim>\<open>np.fft.fftshift(np.fft.fft2(img, norm='ortho'))\<close>, \<open>ifft2_ishift\<close> is
  \<^verbatim>\<open>np.fft.ifft2(np.fft.ifftshift(x), norm='ortho')\<close> and \<open>exp_zero\<close> is an item of
  \<^verbatim>\<open>np.exp(np.zeros(...))\<close>.
\<close>

subsection \<open>Peak index, peak locator, range validator\<close>

definition idxPeak_ij :: "int \<Rightarrow> int \<Rightarrow> int \<Rightarrow> int \<Rightarrow> int \<Rightarrow> int \<Rightarrow> int \<times> int" where
  "idxPeak_ij harV harH nRows nColumns periodVert periodHor =
     (nRows div 2 + harV * periodVert, nColumns div 2 + harH * periodHor)"

definition idxPeak_ij_exp ::
  "'a numpy_ops \<Rightarrow> 'a ndarray \<Rightarrow> int \<Rightarrow> int \<Rightarrow> int \<Rightarrow> int \<Rightarrow> int \<Rightarrow> error + (nat \<times> nat)" where
  "idxPeak_ij_exp ops imgFFT harV harH periodVert periodHor searchRegion =
     (let intensity = map_arr (np_abs ops) imgFFT;
          nRows = nrows imgFFT;
          nColumns = ncols imgFFT;
          idxPeak = idxPeak_ij harV harH (int nRows) (int nColumns) periodVert periodHor;
          maskSearchRegion =
            setslice (full nRows nColumns (Fin 0))
              (fst idxPeak - searchRegion) (fst idxPeak + searchRegion)
              (snd idxPeak - searchRegion) (snd idxPeak + searchRegion) (Fin 1)
      in case elementwise fmul intensity maskSearchRegion of Inl e \<Rightarrow> Inl e
         | Inr masked \<Rightarrow>
           (case np_max masked of Inl e \<Rightarrow> Inl e
            | Inr m \<Rightarrow>
              (case np_where_eq masked m of [] \<Rightarrow> Inl IndexError
               | p # _ \<Rightarrow> Inr p)))"

definition check_harmonic_inside_image ::
  "int \<Rightarrow> int \<Rightarrow> int \<Rightarrow> int \<Rightarrow> int \<Rightarrow> int \<Rightarrow> error + unit" where
  "check_harmonic_inside_image harV harH nRows nColumns periodVert periodHor =
     (let errFlag = False;
          errFlag = (if (of_int harV + 1 / 2) * of_int periodVert > (of_int nRows / 2 :: real)
                     then True else errFlag);
          errFlag = (if (of_int harH + 1 / 2) * of_int periodHor > (of_int nColumns / 2 :: real)
                     then True else errFlag)
      in if errFlag then Inl ValueError else Inr ())"

definition error_harmonic_peak ::
  "'a numpy_ops \<Rightarrow> 'a ndarray \<Rightarrow> int \<Rightarrow> int \<Rightarrow> int \<Rightarrow> int \<Rightarrow> int \<Rightarrow> error + (int \<times> int)" where
  "error_harmonic_peak ops imgFFT harV harH periodVert periodHor searchRegion =
     (let idxPeak = idxPeak_ij harV harH (int (nrows imgFFT)) (int (ncols imgFFT))
                      periodVert periodHor
      in case idxPeak_ij_exp ops imgFFT harV harH periodVert periodHor searchRegion of
           Inl e \<Rightarrow> Inl e
         | Inr p \<Rightarrow> Inr (int (fst p) - fst idxPeak, int (snd p) - snd idxPeak))"

subsection \<open>The public functions\<close>

definition exp_harm_period ::
  "'a numpy_ops \<Rightarrow> 'a ndarray \<Rightarrow> int \<times> int \<Rightarrow> int \<times> int \<Rightarrow> int \<Rightarrow> bool \<Rightarrow> error + (int \<times> int)" where
  "exp_harm_period ops img harmonicPeriod harmonic_ij searchRegion isFFT =
     (let nRows = int (nrows img);
          nColumns = int (ncols img);
          harV = fst harmonic_ij;
          harH = snd harmonic_ij;
          periodVert = fst harmonicPeriod;
          periodHor = snd harmonicPeriod;
          periodVert = (if periodVert \<le> 0 then nRows else periodVert);
          periodHor = (if periodHor \<le> 0 then nColumns else periodHor)
      in case check_harmonic_inside_image harV harH nRows nColumns periodVert periodHor of
           Inl e \<Rightarrow> Inl e
         | Inr _ \<Rightarrow>
           (let imgFFT = (if isFFT then img else fft2_shift ops img)
            in case error_harmonic_peak ops imgFFT harV harH periodVert periodHor searchRegion of
                 Inl e \<Rightarrow> Inl e
               | Inr d \<Rightarrow> Inr (periodVert + fst d, periodHor + snd d)))"

definition extract_harmonic ::
  "'a numpy_ops \<Rightarrow> 'a ndarray \<Rightarrow> int \<times> int \<Rightarrow> int \<times> int \<Rightarrow> int \<Rightarrow> bool \<Rightarrow> error + 'a ndarray" where
  "extract_harmonic ops img harmonicPeriod harmonic_ij searchRegion isFFT =
     (let nRows = int (nrows img);
          nColumns = int (ncols img);
          harV = fst harmonic_ij;
          harH = snd harmonic_ij;
          periodVert = fst harmonicPeriod;
          periodHor = snd harmonicPeriod;
          periodVert = (if periodVert \<le> 0 then nRows else periodVert);
          periodHor = (if periodHor \<le> 0 then nColumns else periodHor)
      in case check_harmonic_inside_image harV harH nRows nColumns periodVert periodHor of
           Inl e \<Rightarrow> Inl SystemExit
         | Inr _ \<Rightarrow>
           (let imgFFT = (if isFFT then img else fft2_shift ops img);
                idxPeak = idxPeak_ij harV harH nRows nColumns periodVert periodHor
            in case error_harmonic_peak ops imgFFT harV harH periodVert periodHor searchRegion of
                 Inl e \<Rightarrow> Inl e
               | Inr d \<Rightarrow>
                 Inr (getslice imgFFT
                        (fst idxPeak - periodVert div 2) (fst idxPeak + periodVert div 2)
                        (snd idxPeak - periodHor div 2) (snd idxPeak + periodHor div 2))))"

text \<open>\<^verbatim>\<open>np.all(np.isfinite(a))\<close>\<close>

definition all_isfinite :: "'a numpy_ops \<Rightarrow> 'a ndarray \<Rightarrow> bool" where
  "all_isfinite ops a = list_all (np_isfinite ops) (flat a)"

text \<open>Sequencing of calls that may raise: the first exception ends the function.\<close>

definition seq :: "error + 'a \<Rightarrow> ('a \<Rightarrow> error + 'b) \<Rightarrow> error + 'b" where
  "seq m f = (case m of Inl e \<Rightarrow> Inl e | Inr x \<Rightarrow> f x)"

definition single_grating_harmonic_images ::
  "'a numpy_ops \<Rightarrow> 'a ndarray \<Rightarrow> int \<times> int \<Rightarrow> int
     \<Rightarrow> error + ('a ndarray \<times> 'a ndarray \<times> 'a ndarray)" where
  "single_grating_harmonic_images ops img harmonicPeriod searchRegion =
     (let imgFFT = fft2_shift ops img
      in seq (extract_harmonic ops imgFFT harmonicPeriod (0, 0) searchRegion True) (\<lambda>imgFFT00.
         seq (extract_harmonic ops imgFFT harmonicPeriod (0, 1) searchRegion True) (\<lambda>imgFFT01.
         seq (extract_harmonic ops imgFFT harmonicPeriod (1, 0) searchRegion True) (\<lambda>imgFFT10.
           (let img00 = ifft2_ishift ops imgFFT00;
                img01 = (if all_isfinite ops imgFFT01 then ifft2_ishift ops imgFFT01
                         else imgFFT01);
                img10 = (if all_isfinite ops imgFFT10 then ifft2_ishift ops imgFFT10
                         else imgFFT10)
            in Inr (img00, img01, img10))))))"

text \<open>
  \<open>img_ref\<close> is \<open>None\<close> for Python's \<^verbatim>\<open>None\<close>. The harmonic images are extracted with the
  default search region, 10.
\<close>

definition single_2Dgrating_analyses ::
  "'a numpy_ops \<Rightarrow> 'a ndarray \<Rightarrow> 'a ndarray option \<Rightarrow> int \<times> int \<Rightarrow> int
     \<Rightarrow> error + (npfloat ndarray \<times> npfloat ndarray \<times> npfloat ndarray \<times> npfloat ndarray
                  \<times> npfloat ndarray \<times> npfloat ndarray \<times> npfloat ndarray)" where
  "single_2Dgrating_analyses ops img img_ref harmonicPeriod unwrapFlag =
     seq (single_grating_harmonic_images ops img harmonicPeriod 10) (\<lambda>h_img.
     seq (case img_ref of
            Some r \<Rightarrow> single_grating_harmonic_images ops r harmonicPeriod 10
          | None \<Rightarrow>
              (let ones = full (nrows (fst h_img)) (ncols (fst h_img)) (exp_zero ops)
               in Inr (ones, ones, ones))) (\<lambda>h_img_ref.
     seq (elementwise fdiv (map_arr (np_abs ops) (fst h_img))
                           (map_arr (np_abs ops) (fst h_img_ref))) (\<lambda>int00.
     seq (elementwise fdiv (map_arr (np_abs ops) (fst (snd h_img)))
                           (map_arr (np_abs ops) (fst (snd h_img_ref)))) (\<lambda>int01.
     seq (elementwise fdiv (map_arr (np_abs ops) (snd (snd h_img)))
                           (map_arr (np_abs ops) (snd (snd h_img_ref)))) (\<lambda>int10.
     seq (elementwise fdiv int01 int00) (\<lambda>darkField01.
     seq (elementwise fdiv int10 int00) (\<lambda>darkField10.
     seq (elementwise fsub (map_arr (np_angle ops) (fst (snd h_img)))
                           (map_arr (np_angle ops) (fst (snd h_img_ref)))) (\<lambda>arg01.
     seq (elementwise fsub (map_arr (np_angle ops) (snd (snd h_img)))
                           (map_arr (np_angle ops) (snd (snd h_img_ref)))) (\<lambda>arg10.
       (let arg01 = (if unwrapFlag = 1 then unwrap_phase ops arg01 else arg01);
            arg10 = (if unwrapFlag = 1 then unwrap_phase ops arg10 else arg10)
        in Inr (int00, int01, int10, darkField01, darkField10, arg01, arg10)))))))))))"

definition visib_1st_harmonics ::
  "'a numpy_ops \<Rightarrow> 'a ndarray \<Rightarrow> int \<times> int \<Rightarrow> int \<Rightarrow> error + (npfloat \<times> npfloat)" where
  "visib_1st_harmonics ops img harmonicPeriod searchRegion =
     (let imgFFT = fft2_shift ops img
      in seq (idxPeak_ij_exp ops imgFFT 0 0 (fst harmonicPeriod) (snd harmonicPeriod)
                searchRegion) (\<lambda>idxPeak_ij_exp00.
         seq (idxPeak_ij_exp ops imgFFT 1 0 (fst harmonicPeriod) (snd harmonicPeriod)
                searchRegion) (\<lambda>idxPeak_ij_exp10.
         seq (idxPeak_ij_exp ops imgFFT 0 1 (fst harmonicPeriod) (snd harmonicPeriod)
                searchRegion) (\<lambda>idxPeak_ij_exp01.
           (let peak00 = np_abs ops (item imgFFT (fst idxPeak_ij_exp00) (snd idxPeak_ij_exp00));
                peak10 = np_abs ops (item imgFFT (fst idxPeak_ij_exp10) (snd idxPeak_ij_exp10));
                peak01 = np_abs ops (item imgFFT (fst idxPeak_ij_exp01) (snd idxPeak_ij_exp01))
            in Inr (fdiv (fmul (Fin 2) peak10) peak00,
                    fdiv (fmul (Fin 2) peak01) peak00))))))"

subsection \<open>An instance of the library calls: arrays of real floats\<close>

text \<open>
  The magnitude, the phase angle (\<^verbatim>\<open>arctan2(0.0, x)\<close>) and the finiteness test of a real
  float. The two transforms are arguments: a concrete input gives the transform of the
  arrays it uses.
\<close>

fun float_abs :: "npfloat \<Rightarrow> npfloat" where
  "float_abs (Fin x) = Fin \<bar>x\<bar>"
| "float_abs PInf = PInf"
| "float_abs NInf = PInf"
| "float_abs NaN = NaN"

fun float_angle :: "npfloat \<Rightarrow> npfloat" where
  "float_angle (Fin x) = Fin (if x < 0 then pi else 0)"
| "float_angle PInf = Fin 0"
| "float_angle NInf = Fin pi"
| "float_angle NaN = NaN"

fun float_isfinite :: "npfloat \<Rightarrow> bool" where
  "float_isfinite (Fin x) = True"
| "float_isfinite _ = False"

definition float_ops ::
  "(npfloat ndarray \<Rightarrow> npfloat ndarray) \<Rightarrow> (npfloat ndarray \<Rightarrow> npfloat ndarray)
     \<Rightarrow> npfloat numpy_ops" where
  "float_ops fwd bwd =
     \<lparr>np_abs = float_abs, np_angle = float_angle, np_isfinite = float_isfinite,
      fft2_shift = fwd, ifft2_ishift = bwd, unwrap_phase = (\<lambda>a. a), exp_zero = Fin 1\<rparr>"

text \<open>The array with one value at the listed positions and another value everywhere else.\<close>

definition spikes :: "nat \<Rightarrow> nat \<Rightarrow> (nat \<times> nat) list \<Rightarrow> 'a \<Rightarrow> 'a \<Rightarrow> 'a ndarray" where
  "spikes r c ps v w =
     \<lparr>nrows = r, ncols = c, item = (\<lambda>i j. if (i, j) \<in> set ps then v else w)\<rparr>"

text \<open>The array given by the list of its rows.\<close>

definition of_rows :: "'a list list \<Rightarrow> 'a ndarray" where
  "of_rows rs = \<lparr>nrows = length rs, ncols = (case rs of [] \<Rightarrow> 0 | r # _ \<Rightarrow> length r),
                 item = (\<lambda>i j. rs ! i ! j)\<rparr>"

text \<open>
  A 6 x 6 real image, (8 + 4 cos(2 pi m / 3) + 8 cos(2 pi n / 3)) / 6 at (m, n), and its
  orthonormal, shifted Fourier transform: the zero order 8 at (3, 3), the vertical first
  harmonics 2 at (5, 3) and (1, 3), the horizontal ones 4 at (3, 5) and (3, 1).
\<close>

definition grating6 :: "npfloat ndarray" where
  "grating6 = of_rows
     [[Fin (10/3), Fin (4/3), Fin (4/3), Fin (10/3), Fin (4/3), Fin (4/3)],
      [Fin (7/3), Fin (1/3), Fin (1/3), Fin (7/3), Fin (1/3), Fin (1/3)],
      [Fin (7/3), Fin (1/3), Fin (1/3), Fin (7/3), Fin (1/3), Fin (1/3)],
      [Fin (10/3), Fin (4/3), Fin (4/3), Fin (10/3), Fin (4/3), Fin (4/3)],
      [Fin (7/3), Fin (1/3), Fin (1/3), Fin (7/3), Fin (1/3), Fin (1/3)],
      [Fin (7/3), Fin (1/3), Fin (1/3), Fin (7/3), Fin (1/3), Fin (1/3)]]"

definition spectrum6 :: "npfloat ndarray" where
  "spectrum6 = of_rows
     [[Fin 0, Fin 0, Fin 0, Fin 0, Fin 0, Fin 0],
      [Fin 0, Fin 0, Fin 0, Fin 2, Fin 0, Fin 0],
      [Fin 0, Fin 0, Fin 0, Fin 0, Fin 0, Fin 0],
      [Fin 0, Fin 4, Fin 0, Fin 8, Fin 0, Fin 4],
      [Fin 0, Fin 0, Fin 0, Fin 0, Fin 0, Fin 0],
      [Fin 0, Fin 0, Fin 0, Fin 2, Fin 0, Fin 0]]"

subsection \<open>Notions used in the statements\<close>

text \<open>Row-major scan order of index pairs.\<close>

definition rowmajor_lt :: "nat \<times> nat \<Rightarrow> nat \<times> nat \<Rightarrow> bool" where
  "rowmajor_lt p q = (fst p < fst q \<or> (fst p = fst q \<and> snd p < snd q))"

text \<open>
  The items the mask of the peak locator sets to 1: those of the slice
  \<^verbatim>\<open>[i0 - s : i0 + s, j0 - s : j0 + s]\<close>, with Python's treatment of the bounds.
\<close>

definition search_window ::
  "'a ndarray \<Rightarrow> int \<Rightarrow> int \<Rightarrow> int \<Rightarrow> int \<Rightarrow> int \<Rightarrow> nat \<Rightarrow> nat \<Rightarrow> bool" where
  "search_window img harV harH periodVert periodHor searchRegion i j =
     (let idxPeak = idxPeak_ij harV harH (int (nrows img)) (int (ncols img)) periodVert periodHor;
          (l0, h0) = slice_bounds (fst idxPeak - searchRegion) (fst idxPeak + searchRegion)
                       (nrows img);
          (l1, h1) = slice_bounds (snd idxPeak - searchRegion) (snd idxPeak + searchRegion)
                       (ncols img)
      in l0 \<le> i \<and> i < h0 \<and> l1 \<le> j \<and> j < h1)"

text \<open>The square window of half-width \<open>searchRegion\<close> centred at \<open>idxPeak\<close>.\<close>

definition centred_window :: "int \<times> int \<Rightarrow> int \<Rightarrow> nat \<Rightarrow> nat \<Rightarrow> bool" where
  "centred_window idxPeak searchRegion i j =
     (fst idxPeak - searchRegion \<le> int i \<and> int i < fst idxPeak + searchRegion
      \<and> snd idxPeak - searchRegion \<le> int j \<and> int j < snd idxPeak + searchRegion)"

text \<open>The value of a finite float, and the magnitude of an item whose magnitude is finite.\<close>

definition fin_val :: "npfloat \<Rightarrow> real" where
  "fin_val x = (case x of Fin r \<Rightarrow> r | _ \<Rightarrow> 0)"

definition mag :: "'a numpy_ops \<Rightarrow> 'a ndarray \<Rightarrow> nat \<Rightarrow> nat \<Rightarrow> real" where
  "mag ops img i j = fin_val (np_abs ops (item img i j))"

text \<open>The item-wise combination of two arrays of the same shape.\<close>

definition zipwith_arr :: "('a \<Rightarrow> 'b \<Rightarrow> 'c) \<Rightarrow> 'a ndarray \<Rightarrow> 'b ndarray \<Rightarrow> 'c ndarray" where
  "zipwith_arr f a b =
     \<lparr>nrows = nrows a, ncols = ncols a, item = (\<lambda>i j. f (item a i j) (item b i j))\<rparr>"

text \<open>The period after the substitution for a one-dimensional grating.\<close>

definition resolve_period :: "int \<Rightarrow> nat \<Rightarrow> int" where
  "resolve_period period n = (if period \<le> 0 then int n else period)"

text \<open>The array \<^verbatim>\<open>intensity * maskSearchRegion\<close> of the peak locator.\<close>

definition masked_intensity ::
  "'a numpy_ops \<Rightarrow> 'a ndarray \<Rightarrow> int \<Rightarrow> int \<Rightarrow> int \<Rightarrow> int \<Rightarrow> int \<Rightarrow> npfloat ndarray" where
  "masked_intensity ops img harV harH periodVert periodHor searchRegion =
     \<lparr>nrows = nrows img, ncols = ncols img,
      item = (\<lambda>i j. fmul (np_abs ops (item img i j))
                (if search_window img harV harH periodVert periodHor searchRegion i j
                 then Fin 1 else Fin 0))\<rparr>"

section \<open>Properties\<close>

subsection \<open>Evaluation on concrete arrays\<close>

lemma upt_eval: "[0..<4] = [0, 1, 2, 3]" "[0..<6] = [0, 1, 2, 3, 4, 5]"
  by (simp_all add: upt_rec)

lemmas eval_defs = idxPeak_ij_exp_def float_ops_def full_def spikes_def idxPeak_ij_def
  setslice_def getslice_def slice_bounds_def slice_clip_def elementwise_def bdim_def bidx_def
  map_arr_def np_max_def np_where_eq_def flat_def positions_def Let_def upt_eval

lemmas eval_extract = extract_harmonic_def error_harmonic_peak_def
  check_harmonic_inside_image_def shape_def eval_defs

lemmas eval_visib = visib_1st_harmonics_def of_rows_def spectrum6_def grating6_def eval_defs

lemma seq_Inr [simp]: "seq (Inr x) f = f x"
  by (simp add: seq_def)

lemma seq_Inl [simp]: "seq (Inl e) f = Inl e"
  by (simp add: seq_def)

lemma seq_eq_Inr: "(seq m f = Inr y) = (\<exists>x. m = Inr x \<and> f x = Inr y)"
  by (cases m) simp_all

lemma upt2: "[0..<2] = [0, 1]"
  by (simp add: upt_rec)

lemmas eval_sghi = single_grating_harmonic_images_def all_isfinite_def upt2 of_rows_def
  spectrum6_def grating6_def eval_extract

subsection \<open>Peak index calculator\<close>

text \<open>
  C3. For all integers nRows, nColumns, periodVert, periodHor, harV, harH, the peak index
  calculator returns exactly the pair
  (nRows // 2 + harV * periodVert, nColumns // 2 + harH * periodHor): integer arithmetic,
  floor division, no rounding.
\<close>

theorem C3_idxPeak_ij_exact:
  "fst (idxPeak_ij harV harH nRows nColumns periodVert periodHor)
     = \<lfloor>real_of_int nRows / 2\<rfloor> + harV * periodVert
   \<and> snd (idxPeak_ij harV harH nRows nColumns periodVert periodHor)
     = \<lfloor>real_of_int nColumns / 2\<rfloor> + harH * periodHor
   \<and> idxPeak_ij harV harH nRows nColumns periodVert periodHor
     = (nRows div 2 + harV * periodVert, nColumns div 2 + harH * periodHor)"
  using floor_divide_of_int_eq [of nRows 2, where ?'a = real]
    floor_divide_of_int_eq [of nColumns 2, where ?'a = real]
  by (simp add: idxPeak_ij_def)

subsection \<open>Range validator\<close>

lemma check_harmonic_inside_image_cases:
  "check_harmonic_inside_image harV harH nRows nColumns periodVert periodHor =
     (if (of_int harV + 1 / 2) * of_int periodVert > (of_int nRows / 2 :: real)
         \<or> (of_int harH + 1 / 2) * of_int periodHor > (of_int nColumns / 2 :: real)
      then Inl ValueError else Inr ())"
  by (simp add: check_harmonic_inside_image_def Let_def)

lemma half_step_int:
  "((of_int h + 1 / 2) * of_int p > (of_int n / 2 :: real)) = (2 * h * p + p > n)"
proof -
  have "((of_int h + 1 / 2) * of_int p > (of_int n / 2 :: real))
      = (of_int (2 * h * p + p) > (of_int n :: real))"
    by (simp add: field_simps)
  also have "\<dots> = (2 * h * p + p > n)"
    by (simp only: of_int_less_iff)
  finally show ?thesis .
qed

lemma check_harmonic_inside_image_int:
  "check_harmonic_inside_image harV harH nRows nColumns periodVert periodHor =
     (if 2 * harV * periodVert + periodVert > nRows
         \<or> 2 * harH * periodHor + periodHor > nColumns
      then Inl ValueError else Inr ())"
  by (simp only: check_harmonic_inside_image_cases half_step_int)



subsection \<open>Peak locator\<close>

lemma sorted_wrt_product:
  "sorted_wrt (<) xs \<Longrightarrow> sorted_wrt (<) ys \<Longrightarrow> sorted_wrt rowmajor_lt (List.product xs ys)"
proof (induction xs)
  case Nil
  then show ?case by simp
next
  case (Cons x xs)
  have "sorted_wrt rowmajor_lt (map (Pair x) ys)"
    using Cons.prems(2) by (simp add: sorted_wrt_map rowmajor_lt_def)
  moreover have "sorted_wrt rowmajor_lt (List.product xs ys)"
    using Cons by simp
  moreover have "\<forall>p\<in>set (map (Pair x) ys). \<forall>q\<in>set (List.product xs ys). rowmajor_lt p q"
    using Cons.prems(1) by (auto simp: rowmajor_lt_def)
  ultimately show ?case
    by (simp add: sorted_wrt_append)
qed

lemma sorted_wrt_positions: "sorted_wrt rowmajor_lt (positions a)"
  unfolding positions_def by (rule sorted_wrt_product) simp_all

lemma set_positions: "set (positions a) = {(i, j). i < nrows a \<and> j < ncols a}"
  by (auto simp: positions_def)

lemma filter_first_least:
  assumes "sorted_wrt R xs" and "filter P xs = p # ps"
  shows "p \<in> set xs \<and> P p \<and> (\<forall>q\<in>set xs. P q \<longrightarrow> q = p \<or> R p q)"
proof -
  have "sorted_wrt R (filter P xs)"
    using assms(1) by (rule sorted_wrt_filter)
  then have r: "\<forall>q\<in>set ps. R p q"
    using assms(2) by simp
  have m: "set (filter P xs) = insert p (set ps)"
    using assms(2) by simp
  have "p \<in> set (filter P xs)" using m by simp
  then have "p \<in> set xs \<and> P p" by simp
  moreover have "\<forall>q\<in>set xs. P q \<longrightarrow> q = p \<or> R p q"
  proof (intro ballI impI)
    fix q assume "q \<in> set xs" "P q"
    then have "q \<in> set (filter P xs)" by simp
    then show "q = p \<or> R p q" using m r by auto
  qed
  ultimately show ?thesis by simp
qed

lemma fold_fmax_Fin:
  "fold (\<lambda>y m. fmax m y) (map Fin ys) (Fin x) = Fin (fold max ys x)"
  by (induction ys arbitrary: x) (simp_all add: max_def)

lemma fold_max_Max: "fold max ys (x::real) = Max (set (x # ys))"
  by (rule Max.set_eq_fold [symmetric])

lemma positions_nonempty: "0 < nrows a \<Longrightarrow> 0 < ncols a \<Longrightarrow> positions a \<noteq> []"
proof -
  assume "0 < nrows a" "0 < ncols a"
  then have "(0, 0) \<in> set (positions a)" by (simp add: set_positions)
  then show ?thesis by auto
qed

lemma flat_Fin:
  assumes "\<forall>i<nrows M. \<forall>j<ncols M. item M i j = Fin (g i j)"
  shows "flat M = map Fin (map (\<lambda>(i, j). g i j) (positions M))"
  using assms by (auto simp: flat_def set_positions)

lemma where_Fin:
  assumes "\<forall>i<nrows M. \<forall>j<ncols M. item M i j = Fin (g i j)"
  shows "np_where_eq M (Fin m) = filter (\<lambda>(i, j). g i j = m) (positions M)"
  unfolding np_where_eq_def
  by (rule filter_cong) (use assms in \<open>auto simp: set_positions\<close>)

lemma locator_core:
  assumes fin: "\<forall>i<nrows M. \<forall>j<ncols M. item M i j = Fin (g i j)"
    and ne: "0 < nrows M" "0 < ncols M"
  shows "\<exists>p ps. np_max M = Inr (Fin (g (fst p) (snd p)))
           \<and> np_where_eq M (Fin (g (fst p) (snd p))) = p # ps
           \<and> fst p < nrows M \<and> snd p < ncols M
           \<and> (\<forall>i<nrows M. \<forall>j<ncols M. g i j \<le> g (fst p) (snd p))
           \<and> (\<forall>i<nrows M. \<forall>j<ncols M. g i j = g (fst p) (snd p)
                  \<longrightarrow> (i, j) = p \<or> rowmajor_lt p (i, j))"
proof -
  let ?gs = "map (\<lambda>(i, j). g i j) (positions M)"
  have gne: "?gs \<noteq> []" using positions_nonempty [OF ne] by simp
  then obtain x ys where gs: "?gs = x # ys" by (cases ?gs) auto
  define m where "m = Max (set ?gs)"
  have "flat M = Fin x # map Fin ys"
    using flat_Fin [OF fin] gs by simp
  then have mx: "np_max M = Inr (Fin m)"
    by (simp add: np_max_def fold_fmax_Fin fold_max_Max m_def gs)
  have m_in: "m \<in> set ?gs" unfolding m_def using gne by (intro Max_in) auto
  have m_ge: "\<forall>v\<in>set ?gs. v \<le> m" unfolding m_def by auto
  from m_in obtain q where q: "q \<in> set (positions M)" "(\<lambda>(i, j). g i j) q = m" by auto
  then have "q \<in> set (filter (\<lambda>(i, j). g i j = m) (positions M))" by auto
  then obtain p ps where f: "filter (\<lambda>(i, j). g i j = m) (positions M) = p # ps"
    by (cases "filter (\<lambda>(i, j). g i j = m) (positions M)") auto
  note fl = filter_first_least [OF sorted_wrt_positions f]
  from fl have pin: "p \<in> set (positions M)" and pm: "g (fst p) (snd p) = m"
    by (auto simp: case_prod_beta)
  have a: "np_max M = Inr (Fin (g (fst p) (snd p)))" using mx pm by simp
  have b: "np_where_eq M (Fin (g (fst p) (snd p))) = p # ps"
    using where_Fin [OF fin, of m] f pm by simp
  have c: "fst p < nrows M \<and> snd p < ncols M"
    using pin by (auto simp: set_positions)
  have d: "\<forall>i<nrows M. \<forall>j<ncols M. g i j \<le> g (fst p) (snd p)"
  proof (intro allI impI)
    fix i j assume "i < nrows M" "j < ncols M"
    then have "(i, j) \<in> set (positions M)" by (simp add: set_positions)
    then have "g i j \<in> set ?gs" by force
    then have "g i j \<le> m" using m_ge by blast
    then show "g i j \<le> g (fst p) (snd p)" using pm by simp
  qed
  have e: "\<forall>i<nrows M. \<forall>j<ncols M. g i j = g (fst p) (snd p)
                  \<longrightarrow> (i, j) = p \<or> rowmajor_lt p (i, j)"
  proof (intro allI impI)
    fix i j assume "i < nrows M" "j < ncols M" "g i j = g (fst p) (snd p)"
    then have "(i, j) \<in> set (positions M)" "(\<lambda>(i, j). g i j = m) (i, j)"
      using pm by (simp_all add: set_positions)
    then show "(i, j) = p \<or> rowmajor_lt p (i, j)" using fl by blast
  qed
  from a b c d e show ?thesis by blast
qed

lemma idxPeak_ij_exp_masked:
  "idxPeak_ij_exp ops img harV harH periodVert periodHor searchRegion =
     (case np_max (masked_intensity ops img harV harH periodVert periodHor searchRegion) of
        Inl e \<Rightarrow> Inl e
      | Inr m \<Rightarrow>
          (case np_where_eq
                  (masked_intensity ops img harV harH periodVert periodHor searchRegion) m of
             [] \<Rightarrow> Inl IndexError
           | p # _ \<Rightarrow> Inr p))"
proof -
  have "elementwise fmul (map_arr (np_abs ops) img)
          (setslice (full (nrows img) (ncols img) (Fin 0))
             (fst (idxPeak_ij harV harH (int (nrows img)) (int (ncols img)) periodVert periodHor)
                - searchRegion)
             (fst (idxPeak_ij harV harH (int (nrows img)) (int (ncols img)) periodVert periodHor)
                + searchRegion)
             (snd (idxPeak_ij harV harH (int (nrows img)) (int (ncols img)) periodVert periodHor)
                - searchRegion)
             (snd (idxPeak_ij harV harH (int (nrows img)) (int (ncols img)) periodVert periodHor)
                + searchRegion) (Fin 1))
        = Inr (masked_intensity ops img harV harH periodVert periodHor searchRegion)"
    by (simp add: elementwise_def bdim_def bidx_def map_arr_def setslice_def full_def
        masked_intensity_def search_window_def Let_def split_beta fun_eq_iff)
  then show ?thesis
    by (simp add: idxPeak_ij_exp_def Let_def)
qed

lemma clip_lo: "0 \<le> k \<Longrightarrow> i < n \<Longrightarrow> (slice_clip k n \<le> i) = (k \<le> int i)"
  by (auto simp: slice_clip_def)

lemma clip_hi: "0 \<le> k \<Longrightarrow> i < n \<Longrightarrow> (i < slice_clip k n) = (int i < k)"
  by (auto simp: slice_clip_def)

lemma search_window_centred:
  assumes "0 \<le> fst (idxPeak_ij harV harH (int (nrows img)) (int (ncols img)) pV pH) - s"
    and "0 \<le> snd (idxPeak_ij harV harH (int (nrows img)) (int (ncols img)) pV pH) - s"
    and "0 \<le> s" and "i < nrows img" and "j < ncols img"
  shows "search_window img harV harH pV pH s i j
       = centred_window (idxPeak_ij harV harH (int (nrows img)) (int (ncols img)) pV pH) s i j"
proof -
  let ?idx = "idxPeak_ij harV harH (int (nrows img)) (int (ncols img)) pV pH"
  have a: "0 \<le> fst ?idx + s" "0 \<le> snd ?idx + s" using assms(1,2,3) by simp_all
  show ?thesis
    by (simp add: search_window_def centred_window_def slice_bounds_def Let_def
        clip_lo [OF assms(1) assms(4)] clip_hi [OF a(1) assms(4)]
        clip_lo [OF assms(2) assms(5)] clip_hi [OF a(2) assms(5)])
qed

lemma masked_Fin:
  assumes "\<forall>i<nrows img. \<forall>j<ncols img. \<exists>x. np_abs ops (item img i j) = Fin x"
  shows "\<forall>i<nrows (masked_intensity ops img harV harH pV pH s).
         \<forall>j<ncols (masked_intensity ops img harV harH pV pH s).
           item (masked_intensity ops img harV harH pV pH s) i j
           = Fin (if search_window img harV harH pV pH s i j
                  then fin_val (np_abs ops (item img i j)) else 0)"
proof (intro allI impI)
  fix i j
  assume "i < nrows (masked_intensity ops img harV harH pV pH s)"
    and "j < ncols (masked_intensity ops img harV harH pV pH s)"
  then have "i < nrows img" "j < ncols img" by (simp_all add: masked_intensity_def)
  with assms obtain x where "np_abs ops (item img i j) = Fin x" by blast
  then show "item (masked_intensity ops img harV harH pV pH s) i j
           = Fin (if search_window img harV harH pV pH s i j
                  then fin_val (np_abs ops (item img i j)) else 0)"
    by (simp add: masked_intensity_def fin_val_def)
qed

lemma idxPeak_ij_exp_finite:
  fixes harV harH pV pH s :: int
  assumes fin: "\<forall>i<nrows img. \<forall>j<ncols img. \<exists>x. np_abs ops (item img i j) = Fin x"
    and ne: "0 < nrows img" "0 < ncols img"
  defines "g \<equiv> (\<lambda>i j. if search_window img harV harH pV pH s i j
                       then fin_val (np_abs ops (item img i j)) else 0)"
  shows "\<exists>p. idxPeak_ij_exp ops img harV harH pV pH s = Inr p
           \<and> fst p < nrows img \<and> snd p < ncols img
           \<and> (\<forall>i<nrows img. \<forall>j<ncols img. g i j \<le> g (fst p) (snd p))
           \<and> (\<forall>i<nrows img. \<forall>j<ncols img. g i j = g (fst p) (snd p)
                  \<longrightarrow> (i, j) = p \<or> rowmajor_lt p (i, j))"
proof -
  let ?M = "masked_intensity ops img harV harH pV pH s"
  have sh: "nrows ?M = nrows img" "ncols ?M = ncols img"
    by (simp_all add: masked_intensity_def)
  have f: "\<forall>i<nrows ?M. \<forall>j<ncols ?M. item ?M i j = Fin (g i j)"
    unfolding g_def by (rule masked_Fin [OF fin])
  from locator_core [OF f] ne sh
  obtain p ps where p: "np_max ?M = Inr (Fin (g (fst p) (snd p)))"
      "np_where_eq ?M (Fin (g (fst p) (snd p))) = p # ps"
      "fst p < nrows ?M \<and> snd p < ncols ?M"
      "\<forall>i<nrows ?M. \<forall>j<ncols ?M. g i j \<le> g (fst p) (snd p)"
      "\<forall>i<nrows ?M. \<forall>j<ncols ?M. g i j = g (fst p) (snd p)
                  \<longrightarrow> (i, j) = p \<or> rowmajor_lt p (i, j)"
    by auto
  have "idxPeak_ij_exp ops img harV harH pV pH s = Inr p"
    using p(1,2) by (simp add: idxPeak_ij_exp_masked)
  then show ?thesis using p(3,4,5) sh by auto
qed

text \<open>
  C4 (as amended). Let the magnitudes of all items of the image be finite, let the lower
  bounds i0 - searchRegion and j0 - searchRegion of the window around the theoretical
  peak (i0, j0) be non-negative, and let some item of the image inside the window have a
  positive magnitude. Then the peak locator returns an index pair (r, c) of the image
  inside the window whose magnitude is the largest of the window's items, and among the
  window's items of that magnitude (r, c) is the first in row-major order.
\<close>

theorem C4_peak_locator:
  fixes harV harH pV pH s :: int
  assumes fin: "\<forall>i<nrows img. \<forall>j<ncols img. \<exists>x. np_abs ops (item img i j) = Fin x"
    and lo0: "0 \<le> fst (idxPeak_ij harV harH (int (nrows img)) (int (ncols img)) pV pH) - s"
    and lo1: "0 \<le> snd (idxPeak_ij harV harH (int (nrows img)) (int (ncols img)) pV pH) - s"
    and pos: "\<exists>i<nrows img. \<exists>j<ncols img.
                centred_window (idxPeak_ij harV harH (int (nrows img)) (int (ncols img)) pV pH) s i j
                \<and> 0 < mag ops img i j"
  shows "\<exists>r c. idxPeak_ij_exp ops img harV harH pV pH s = Inr (r, c)
           \<and> r < nrows img \<and> c < ncols img
           \<and> centred_window (idxPeak_ij harV harH (int (nrows img)) (int (ncols img)) pV pH) s r c
           \<and> (\<forall>i<nrows img. \<forall>j<ncols img.
                 centred_window (idxPeak_ij harV harH (int (nrows img)) (int (ncols img)) pV pH)
                   s i j
                 \<longrightarrow> mag ops img i j \<le> mag ops img r c
                     \<and> (mag ops img i j = mag ops img r c \<longrightarrow> r < i \<or> (r = i \<and> c \<le> j)))"
proof -
  let ?idx = "idxPeak_ij harV harH (int (nrows img)) (int (ncols img)) pV pH"
  define g where "g = (\<lambda>i j. if search_window img harV harH pV pH s i j
                       then fin_val (np_abs ops (item img i j)) else 0)"
  from pos obtain i0 j0 where ij0: "i0 < nrows img" "j0 < ncols img"
      "centred_window ?idx s i0 j0" "0 < mag ops img i0 j0"
    by blast
  have s0: "0 \<le> s" using ij0(3) by (simp add: centred_window_def)
  have win: "search_window img harV harH pV pH s i j = centred_window ?idx s i j"
    if "i < nrows img" "j < ncols img" for i j
    using search_window_centred [OF lo0 lo1 s0 that] .
  have gin: "g i j = (if centred_window ?idx s i j then mag ops img i j else 0)"
    if "i < nrows img" "j < ncols img" for i j
    using win [OF that] by (simp add: g_def mag_def)
  from idxPeak_ij_exp_finite [OF fin, of harV harH pV pH s] ij0(1,2)
  obtain p where p: "idxPeak_ij_exp ops img harV harH pV pH s = Inr p"
      "fst p < nrows img" "snd p < ncols img"
      "\<forall>i<nrows img. \<forall>j<ncols img. g i j \<le> g (fst p) (snd p)"
      "\<forall>i<nrows img. \<forall>j<ncols img. g i j = g (fst p) (snd p)
                  \<longrightarrow> (i, j) = p \<or> rowmajor_lt p (i, j)"
    unfolding g_def by auto
  have "g i0 j0 \<le> g (fst p) (snd p)" using p(4) ij0(1,2) by blast
  then have gp: "0 < g (fst p) (snd p)" using gin [OF ij0(1,2)] ij0(3,4) by simp
  then have pw: "centred_window ?idx s (fst p) (snd p)"
    using gin [OF p(2,3)] by (simp split: if_splits)
  then have gpm: "g (fst p) (snd p) = mag ops img (fst p) (snd p)"
    using gin [OF p(2,3)] by simp
  have best: "mag ops img i j \<le> mag ops img (fst p) (snd p)
              \<and> (mag ops img i j = mag ops img (fst p) (snd p)
                   \<longrightarrow> fst p < i \<or> (fst p = i \<and> snd p \<le> j))"
    if "i < nrows img" "j < ncols img" "centred_window ?idx s i j" for i j
  proof -
    have gi: "g i j = mag ops img i j" using gin [OF that(1,2)] that(3) by simp
    have "g i j \<le> g (fst p) (snd p)" using p(4) that(1,2) by blast
    then have a: "mag ops img i j \<le> mag ops img (fst p) (snd p)" using gi gpm by simp
    have b: "fst p < i \<or> (fst p = i \<and> snd p \<le> j)"
      if e: "mag ops img i j = mag ops img (fst p) (snd p)"
    proof -
      have "g i j = g (fst p) (snd p)" using gi gpm e by simp
      then have "(i, j) = p \<or> rowmajor_lt p (i, j)" using p(5) \<open>i < nrows img\<close> \<open>j < ncols img\<close> by blast
      then show ?thesis by (auto simp: rowmajor_lt_def)
    qed
    from a b show ?thesis by blast
  qed
  have "idxPeak_ij_exp ops img harV harH pV pH s = Inr (fst p, snd p)" using p(1) by simp
  with p(2,3) pw best show ?thesis by blast
qed

text \<open>
  C4 as stated fails. On the 4 x 4 image of zeros with periods (4, 4) and search radius 1
  the theoretical peak is (2, 2) and the masked magnitude is 0 everywhere, so the first
  index pair of the whole image, (0, 0), is returned: it lies outside the window. On the
  4 x 4 image whose only non-zero item is the 4 at (2, 2), with search radius 3, the
  lower bound 2 - 3 of the slice is negative and counts from the end: the mask covers the
  item (3, 3) only, and (0, 0) is returned although (2, 2) is in the window and larger.
\<close>

theorem C4_peak_locator_counterexample:
  "idxPeak_ij 0 0 4 4 4 4 = (2, 2)
   \<and> idxPeak_ij_exp (float_ops (\<lambda>a. a) (\<lambda>a. a)) (full 4 4 (Fin 0)) 0 0 4 4 1 = Inr (0, 0)
   \<and> \<not> centred_window (2, 2) 1 0 0
   \<and> idxPeak_ij_exp (float_ops (\<lambda>a. a) (\<lambda>a. a)) (spikes 4 4 [(2, 2)] (Fin 4) (Fin 0))
        0 0 4 4 3 = Inr (0, 0)
   \<and> centred_window (2, 2) 3 2 2
   \<and> mag (float_ops (\<lambda>a. a) (\<lambda>a. a)) (spikes 4 4 [(2, 2)] (Fin 4) (Fin 0)) 0 0
       < mag (float_ops (\<lambda>a. a) (\<lambda>a. a)) (spikes 4 4 [(2, 2)] (Fin 4) (Fin 0)) 2 2"
  by (simp add: eval_defs centred_window_def mag_def fin_val_def)

text \<open>
  On a 6 x 6 image of ones with the value 3 at (3, 3) and (3, 4), periods (6, 6) and
  search radius 2, the locator returns (3, 3), the first of the two largest items.
\<close>

theorem C4_peak_locator_witness:
  "\<exists>r c. idxPeak_ij_exp (float_ops (\<lambda>a. a) (\<lambda>a. a))
            (spikes 6 6 [(3, 3), (3, 4)] (Fin 3) (Fin 1)) 0 0 6 6 2 = Inr (r, c)
         \<and> r = 3 \<and> c = 3
         \<and> centred_window (3, 3) 2 r c
         \<and> mag (float_ops (\<lambda>a. a) (\<lambda>a. a)) (spikes 6 6 [(3, 3), (3, 4)] (Fin 3) (Fin 1)) 3 4
            \<le> mag (float_ops (\<lambda>a. a) (\<lambda>a. a)) (spikes 6 6 [(3, 3), (3, 4)] (Fin 3) (Fin 1)) r c"
proof -
  let ?ops = "float_ops (\<lambda>a. a) (\<lambda>a. a)"
  let ?img = "spikes 6 6 [(3, 3), (3, 4)] (Fin 3) (Fin 1)"
  have idx: "idxPeak_ij 0 0 (int (nrows ?img)) (int (ncols ?img)) 6 6 = (3, 3)"
    by (simp add: idxPeak_ij_def spikes_def)
  have fin: "\<forall>i<nrows ?img. \<forall>j<ncols ?img. \<exists>x. np_abs ?ops (item ?img i j) = Fin x"
    by (simp add: float_ops_def spikes_def)
  have pos: "\<exists>i<nrows ?img. \<exists>j<ncols ?img.
      centred_window (idxPeak_ij 0 0 (int (nrows ?img)) (int (ncols ?img)) 6 6) 2 i j
      \<and> 0 < mag ?ops ?img i j"
    unfolding idx
    by (intro exI [of _ 3] conjI)
      (simp_all add: spikes_def centred_window_def mag_def fin_val_def float_ops_def)
  from C4_peak_locator [of ?img ?ops 0 0 6 6 2, OF fin _ _ pos]
  obtain r c where rc: "idxPeak_ij_exp ?ops ?img 0 0 6 6 2 = Inr (r, c)"
    "centred_window (3, 3) 2 r c"
    "\<forall>i<nrows ?img. \<forall>j<ncols ?img. centred_window (3, 3) 2 i j
       \<longrightarrow> mag ?ops ?img i j \<le> mag ?ops ?img r c
           \<and> (mag ?ops ?img i j = mag ?ops ?img r c \<longrightarrow> r < i \<or> (r = i \<and> c \<le> j))"
    unfolding idx by auto
  have e: "idxPeak_ij_exp ?ops ?img 0 0 6 6 2 = Inr (3, 3)"
    by (simp add: eval_defs)
  have "centred_window (3, 3) 2 3 4" by (simp add: centred_window_def)
  with rc(3) have "mag ?ops ?img 3 4 \<le> mag ?ops ?img r c"
    by (simp add: spikes_def)
  with rc(1,2) e show ?thesis by simp
qed

text \<open>
  An image with a nan magnitude makes the locator raise: the maximum of the masked
  magnitudes is nan, no item is equal to it, and the first index of the empty result of
  \<^verbatim>\<open>np.where\<close> is read.
\<close>

lemma fmax_NaN: "fmax NaN x = NaN" "fmax x NaN = NaN"
  by (cases x; simp)+

lemma fold_fmax_NaN_acc: "fold (\<lambda>y m. fmax m y) xs NaN = NaN"
  by (induction xs) (simp_all add: fmax_NaN)

lemma fold_fmax_NaN: "NaN \<in> set (x # xs) \<Longrightarrow> fold (\<lambda>y m. fmax m y) xs x = NaN"
proof (induction xs arbitrary: x)
  case Nil
  then show ?case by simp
next
  case (Cons y ys)
  show ?case
  proof (cases "x = NaN \<or> y = NaN")
    case True
    then have "fmax x y = NaN" by (auto simp: fmax_NaN)
    then show ?thesis by (simp add: fold_fmax_NaN_acc)
  next
    case False
    with Cons.prems have "NaN \<in> set ys" by auto
    then have "NaN \<in> set (fmax x y # ys)" by simp
    from Cons.IH [OF this] show ?thesis by simp
  qed
qed

lemma feq_NaN: "feq x NaN = False"
  by (cases x) simp_all

lemma idxPeak_ij_exp_NaN:
  assumes "i < nrows img" "j < ncols img" "np_abs ops (item img i j) = NaN"
  shows "idxPeak_ij_exp ops img harV harH periodVert periodHor searchRegion = Inl IndexError"
proof -
  let ?M = "masked_intensity ops img harV harH periodVert periodHor searchRegion"
  have "(i, j) \<in> set (positions ?M)"
    using assms(1,2) by (simp add: set_positions masked_intensity_def)
  moreover have "item ?M i j = NaN"
    using assms(3) by (simp add: masked_intensity_def)
  ultimately have "NaN \<in> set (flat ?M)"
    by (force simp: flat_def)
  then obtain x xs where f: "flat ?M = x # xs" "NaN \<in> set (x # xs)"
    by (cases "flat ?M") auto
  then have "np_max ?M = Inr NaN"
    by (simp add: np_max_def fold_fmax_NaN)
  moreover have "np_where_eq ?M NaN = []"
    by (simp add: np_where_eq_def feq_NaN)
  ultimately show ?thesis by (simp add: idxPeak_ij_exp_masked)
qed

subsection \<open>Harmonic extractor\<close>

lemma axis_in_bounds:
  fixes h p n :: int
  assumes "\<not> n < 2 * h * p + p" and "0 < p" and "0 \<le> h"
  shows "0 \<le> n div 2 + h * p - p div 2 \<and> n div 2 + h * p + p div 2 \<le> n"
proof -
  define q where "q = h * p"
  have q0: "0 \<le> q" using assms(2,3) by (simp add: q_def)
  have "2 * q + p \<le> n" using assms(1) by (simp add: q_def mult.assoc)
  with q0 assms(2) have "0 \<le> n div 2 + q - p div 2 \<and> n div 2 + q + p div 2 \<le> n"
    by linarith
  then show ?thesis by (simp add: q_def)
qed

lemma slice_clip_inside: "0 \<le> k \<Longrightarrow> k \<le> int n \<Longrightarrow> slice_clip k n = nat k"
  by (simp add: slice_clip_def)

lemma getslice_inside:
  assumes "0 \<le> lo0" "lo0 \<le> hi0" "hi0 \<le> int (nrows a)"
    and "0 \<le> lo1" "lo1 \<le> hi1" "hi1 \<le> int (ncols a)"
  shows "getslice a lo0 hi0 lo1 hi1 =
           \<lparr>nrows = nat (hi0 - lo0), ncols = nat (hi1 - lo1),
            item = (\<lambda>i j. item a (nat lo0 + i) (nat lo1 + j))\<rparr>"
proof -
  have "slice_clip lo0 (nrows a) = nat lo0" "slice_clip hi0 (nrows a) = nat hi0"
    "slice_clip lo1 (ncols a) = nat lo1" "slice_clip hi1 (ncols a) = nat hi1"
    using assms by (simp_all add: slice_clip_inside)
  moreover have "nat hi0 - nat lo0 = nat (hi0 - lo0)" "nat hi1 - nat lo1 = nat (hi1 - lo1)"
    using assms by linarith+
  ultimately show ?thesis
    by (simp add: getslice_def slice_bounds_def)
qed

lemma extract_harmonic_cases:
  "extract_harmonic ops img (periodVert, periodHor) (harV, harH) searchRegion isFFT =
     (let pV = (if periodVert \<le> 0 then int (nrows img) else periodVert);
          pH = (if periodHor \<le> 0 then int (ncols img) else periodHor);
          imgFFT = (if isFFT then img else fft2_shift ops img);
          idxPeak = idxPeak_ij harV harH (int (nrows img)) (int (ncols img)) pV pH
      in if check_harmonic_inside_image harV harH (int (nrows img)) (int (ncols img)) pV pH
            = Inl ValueError
         then Inl SystemExit
         else (case idxPeak_ij_exp ops imgFFT harV harH pV pH searchRegion of
                 Inl e \<Rightarrow> Inl e
               | Inr p \<Rightarrow>
                   Inr (getslice imgFFT (fst idxPeak - pV div 2) (fst idxPeak + pV div 2)
                          (snd idxPeak - pH div 2) (snd idxPeak + pH div 2))))"
  by (simp add: extract_harmonic_def error_harmonic_peak_def Let_def
      check_harmonic_inside_image_cases split: sum.splits)

lemma crop_bounds:
  fixes harV harH pV pH nR nC :: int
  assumes chk: "check_harmonic_inside_image harV harH nR nC pV pH = Inr ()"
    and pos: "0 < pV" "0 < pH" and har: "0 \<le> harV" "0 \<le> harH"
  shows "0 \<le> fst (idxPeak_ij harV harH nR nC pV pH) - pV div 2
       \<and> fst (idxPeak_ij harV harH nR nC pV pH) + pV div 2 \<le> nR
       \<and> 0 \<le> snd (idxPeak_ij harV harH nR nC pV pH) - pH div 2
       \<and> snd (idxPeak_ij harV harH nR nC pV pH) + pH div 2 \<le> nC"
proof -
  from chk have a: "\<not> nR < 2 * harV * pV + pV" "\<not> nC < 2 * harH * pH + pH"
    by (simp_all add: check_harmonic_inside_image_int split: if_splits)
  show ?thesis
    using axis_in_bounds [OF a(1) pos(1) har(1)] axis_in_bounds [OF a(2) pos(2) har(2)]
    by (simp add: idxPeak_ij_def)
qed

lemma crop_inside:
  fixes harV harH pV pH :: int
  assumes chk: "check_harmonic_inside_image harV harH (int (nrows img)) (int (ncols img)) pV pH
                  = Inr ()"
    and pos: "0 < pV" "0 < pH" and har: "0 \<le> harV" "0 \<le> harH"
    and sh: "nrows F = nrows img" "ncols F = ncols img"
  shows "getslice F
           (fst (idxPeak_ij harV harH (int (nrows img)) (int (ncols img)) pV pH) - pV div 2)
           (fst (idxPeak_ij harV harH (int (nrows img)) (int (ncols img)) pV pH) + pV div 2)
           (snd (idxPeak_ij harV harH (int (nrows img)) (int (ncols img)) pV pH) - pH div 2)
           (snd (idxPeak_ij harV harH (int (nrows img)) (int (ncols img)) pV pH) + pH div 2)
         = \<lparr>nrows = nat (2 * (pV div 2)), ncols = nat (2 * (pH div 2)),
            item = (\<lambda>i j. item F
              (nat (fst (idxPeak_ij harV harH (int (nrows img)) (int (ncols img)) pV pH)
                    - pV div 2) + i)
              (nat (snd (idxPeak_ij harV harH (int (nrows img)) (int (ncols img)) pV pH)
                    - pH div 2) + j))\<rparr>"
proof -
  let ?idx = "idxPeak_ij harV harH (int (nrows img)) (int (ncols img)) pV pH"
  note b = crop_bounds [OF chk pos har]
  have le: "fst ?idx - pV div 2 \<le> fst ?idx + pV div 2" "snd ?idx - pH div 2 \<le> snd ?idx + pH div 2"
    using pos by simp_all
  have up: "fst ?idx + pV div 2 \<le> int (nrows F)" "snd ?idx + pH div 2 \<le> int (ncols F)"
    using b sh by simp_all
  have lo: "0 \<le> fst ?idx - pV div 2" "0 \<le> snd ?idx - pH div 2" using b by simp_all
  have w: "fst ?idx + pV div 2 - (fst ?idx - pV div 2) = 2 * (pV div 2)"
    "snd ?idx + pH div 2 - (snd ?idx - pH div 2) = 2 * (pH div 2)" by simp_all
  show ?thesis
    using getslice_inside [OF lo(1) le(1) up(1) lo(2) le(2) up(2)] by (simp only: w)
qed

lemma check_total:
  "check_harmonic_inside_image harV harH nR nC pV pH \<noteq> Inl ValueError
   \<Longrightarrow> check_harmonic_inside_image harV harH nR nC pV pH = Inr ()"
  by (simp add: check_harmonic_inside_image_cases split: if_splits)

lemma check_nonempty:
  fixes harV harH pV pH nR nC :: int
  assumes chk: "check_harmonic_inside_image harV harH nR nC pV pH = Inr ()"
    and pos: "0 < pV" "0 < pH" and har: "0 \<le> harV" "0 \<le> harH"
  shows "0 < nR \<and> 0 < nC"
proof -
  from chk have a: "\<not> nR < 2 * harV * pV + pV" "\<not> nC < 2 * harH * pH + pH"
    by (simp_all add: check_harmonic_inside_image_int split: if_splits)
  have "0 \<le> 2 * (harV * pV)" "0 \<le> 2 * (harH * pH)" using pos har by simp_all
  then have "pV \<le> 2 * harV * pV + pV" "pH \<le> 2 * harH * pH + pH"
    by (simp_all add: mult.assoc)
  with a pos show ?thesis by linarith
qed

lemma extract_harmonic_resolved:
  "extract_harmonic ops img (periodVert, periodHor) (harV, harH) searchRegion isFFT =
     (if check_harmonic_inside_image harV harH (int (nrows img)) (int (ncols img))
           (resolve_period periodVert (nrows img)) (resolve_period periodHor (ncols img))
            = Inl ValueError
         then Inl SystemExit
         else (case idxPeak_ij_exp ops (if isFFT then img else fft2_shift ops img) harV harH
                     (resolve_period periodVert (nrows img))
                     (resolve_period periodHor (ncols img)) searchRegion of
                 Inl e \<Rightarrow> Inl e
               | Inr p \<Rightarrow>
                   Inr (getslice (if isFFT then img else fft2_shift ops img)
                          (fst (idxPeak_ij harV harH (int (nrows img)) (int (ncols img))
                                 (resolve_period periodVert (nrows img))
                                 (resolve_period periodHor (ncols img)))
                           - resolve_period periodVert (nrows img) div 2)
                          (fst (idxPeak_ij harV harH (int (nrows img)) (int (ncols img))
                                 (resolve_period periodVert (nrows img))
                                 (resolve_period periodHor (ncols img)))
                           + resolve_period periodVert (nrows img) div 2)
                          (snd (idxPeak_ij harV harH (int (nrows img)) (int (ncols img))
                                 (resolve_period periodVert (nrows img))
                                 (resolve_period periodHor (ncols img)))
                           - resolve_period periodHor (ncols img) div 2)
                          (snd (idxPeak_ij harV harH (int (nrows img)) (int (ncols img))
                                 (resolve_period periodVert (nrows img))
                                 (resolve_period periodHor (ncols img)))
                           + resolve_period periodHor (ncols img) div 2))))"
  unfolding extract_harmonic_cases resolve_period_def Let_def ..

lemma extract_harmonic_inside:
  fixes harV harH periodVert periodHor searchRegion :: int
    and img :: "'a ndarray" and ops :: "'a numpy_ops" and isFFT :: bool
  defines "pV \<equiv> resolve_period periodVert (nrows img)"
    and "pH \<equiv> resolve_period periodHor (ncols img)"
  defines "F \<equiv> (if isFFT then img else fft2_shift ops img)"
  assumes chk: "check_harmonic_inside_image harV harH (int (nrows img)) (int (ncols img)) pV pH
                  = Inr ()"
    and pos: "0 < pV" "0 < pH" and har: "0 \<le> harV" "0 \<le> harH"
    and sh: "nrows F = nrows img" "ncols F = ncols img"
  shows "extract_harmonic ops img (periodVert, periodHor) (harV, harH) searchRegion isFFT =
     (case idxPeak_ij_exp ops F harV harH pV pH searchRegion of
        Inl e \<Rightarrow> Inl e
      | Inr p \<Rightarrow>
          Inr \<lparr>nrows = nat (2 * (pV div 2)), ncols = nat (2 * (pH div 2)),
            item = (\<lambda>i j. item F
              (nat (fst (idxPeak_ij harV harH (int (nrows img)) (int (ncols img)) pV pH)
                    - pV div 2) + i)
              (nat (snd (idxPeak_ij harV harH (int (nrows img)) (int (ncols img)) pV pH)
                    - pH div 2) + j))\<rparr>)"
proof -
  note g = crop_inside [OF chk pos har sh]
  show ?thesis
    unfolding extract_harmonic_resolved pV_def [symmetric] pH_def [symmetric] F_def [symmetric]
    by (simp only: chk g sum.simps if_False)
qed

lemma resolve_period_pos: "0 < p \<Longrightarrow> resolve_period p n = p"
  by (simp add: resolve_period_def)

lemma twice_half_even: "(2 * (p div 2) = p) = even (p::int)"
  by presburger

text \<open>
  C10. When the range validator succeeds for positive periods and non-negative harmonic
  indices, the crop slice of extract_harmonic lies inside the image on both axes
  (0 <= idx - period // 2 and idx + period // 2 <= extent), so the slice is not clipped:
  every crop that is returned has the shape (2 * (periodVert // 2), 2 * (periodHor // 2)),
  which is (periodVert, periodHor) exactly when both periods are even. A crop is returned
  whenever the magnitudes of the transformed image are finite. (The transform keeps the
  shape of the image.)
\<close>

theorem C10_crop_inside_image:
  fixes harV harH periodVert periodHor searchRegion :: int
    and img :: "'a ndarray" and ops :: "'a numpy_ops" and isFFT :: bool
  assumes chk: "check_harmonic_inside_image harV harH (int (nrows img)) (int (ncols img))
                  periodVert periodHor = Inr ()"
    and pos: "0 < periodVert" "0 < periodHor" and har: "0 \<le> harV" "0 \<le> harH"
    and sh: "shape (if isFFT then img else fft2_shift ops img) = shape img"
  shows "0 \<le> fst (idxPeak_ij harV harH (int (nrows img)) (int (ncols img)) periodVert periodHor)
              - periodVert div 2
       \<and> fst (idxPeak_ij harV harH (int (nrows img)) (int (ncols img)) periodVert periodHor)
              + periodVert div 2 \<le> int (nrows img)
       \<and> 0 \<le> snd (idxPeak_ij harV harH (int (nrows img)) (int (ncols img)) periodVert periodHor)
              - periodHor div 2
       \<and> snd (idxPeak_ij harV harH (int (nrows img)) (int (ncols img)) periodVert periodHor)
              + periodHor div 2 \<le> int (ncols img)
       \<and> (\<forall>crop. extract_harmonic ops img (periodVert, periodHor) (harV, harH) searchRegion isFFT
                    = Inr crop
             \<longrightarrow> shape crop = (nat (2 * (periodVert div 2)), nat (2 * (periodHor div 2))))
       \<and> ((\<forall>i<nrows img. \<forall>j<ncols img.
              \<exists>x. np_abs ops (item (if isFFT then img else fft2_shift ops img) i j) = Fin x)
             \<longrightarrow> (\<exists>crop. extract_harmonic ops img (periodVert, periodHor) (harV, harH)
                            searchRegion isFFT = Inr crop))
       \<and> ((2 * (periodVert div 2) = periodVert \<and> 2 * (periodHor div 2) = periodHor)
            = (even periodVert \<and> even periodHor))"
proof -
  let ?F = "if isFFT then img else fft2_shift ops img"
  have shF: "nrows ?F = nrows img" "ncols ?F = ncols img"
    using sh by (simp_all add: shape_def)
  have rp: "resolve_period periodVert (nrows img) = periodVert"
    "resolve_period periodHor (ncols img) = periodHor"
    using pos by (simp_all add: resolve_period_pos)
  note ex = extract_harmonic_inside [of harV harH img periodVert periodHor isFFT ops searchRegion,
      unfolded rp, OF chk pos har shF]
  have a: "\<forall>crop. extract_harmonic ops img (periodVert, periodHor) (harV, harH) searchRegion isFFT
                    = Inr crop
             \<longrightarrow> shape crop = (nat (2 * (periodVert div 2)), nat (2 * (periodHor div 2)))"
    unfolding ex by (auto simp: shape_def split: sum.splits)
  have b: "\<exists>crop. extract_harmonic ops img (periodVert, periodHor) (harV, harH)
                            searchRegion isFFT = Inr crop"
    if fin: "\<forall>i<nrows img. \<forall>j<ncols img. \<exists>x. np_abs ops (item ?F i j) = Fin x"
  proof -
    have ne: "0 < nrows ?F" "0 < ncols ?F"
      using check_nonempty [OF chk pos har] shF by simp_all
    have "\<forall>i<nrows ?F. \<forall>j<ncols ?F. \<exists>x. np_abs ops (item ?F i j) = Fin x"
      using fin shF by simp
    from idxPeak_ij_exp_finite [OF this ne, of harV harH periodVert periodHor searchRegion]
    obtain p where "idxPeak_ij_exp ops ?F harV harH periodVert periodHor searchRegion = Inr p"
      by blast
    then show ?thesis unfolding ex by simp
  qed
  from crop_bounds [OF chk pos har] a b show ?thesis
    by (simp only: twice_half_even) blast
qed

text \<open>
  A 6 x 6 image with periods (3, 2) and harmonic (0, 1): the crop is rows 2..3 and
  columns 4..5, of shape (2, 2) and not (3, 2).
\<close>

theorem C10_crop_inside_image_witness:
  "0 \<le> fst (idxPeak_ij 0 1 6 6 3 2) - 3 div 2
   \<and> fst (idxPeak_ij 0 1 6 6 3 2) + 3 div 2 \<le> 6
   \<and> 0 \<le> snd (idxPeak_ij 0 1 6 6 3 2) - 2 div 2
   \<and> snd (idxPeak_ij 0 1 6 6 3 2) + 2 div 2 \<le> 6
   \<and> (\<exists>crop. extract_harmonic (float_ops (\<lambda>a. a) (\<lambda>a. a))
                 (spikes 6 6 [(3, 5)] (Fin 2) (Fin 1)) (3, 2) (0, 1) 1 True = Inr crop
              \<and> shape crop = (2, 2))"
proof -
  let ?ops = "float_ops (\<lambda>a. a) (\<lambda>a. a)"
  let ?img = "spikes 6 6 [(3, 5)] (Fin 2) (Fin 1)"
  have sz: "nrows ?img = 6" "ncols ?img = 6" by (simp_all add: spikes_def)
  have chk: "check_harmonic_inside_image 0 1 (int (nrows ?img)) (int (ncols ?img)) 3 2 = Inr ()"
    by (simp add: check_harmonic_inside_image_def spikes_def)
  have sh: "shape (if True then ?img else fft2_shift ?ops ?img) = shape ?img" by simp
  have fin: "\<forall>i<nrows ?img. \<forall>j<ncols ?img.
      \<exists>x. np_abs ?ops (item (if True then ?img else fft2_shift ?ops ?img) i j) = Fin x"
    by (simp add: float_ops_def spikes_def)
  note t = C10_crop_inside_image [of 0 1 ?img 3 2 True ?ops 1, OF chk _ _ order_refl zero_le_one sh]
  have t': "0 \<le> fst (idxPeak_ij 0 1 (int (nrows ?img)) (int (ncols ?img)) 3 2) - 3 div 2
       \<and> fst (idxPeak_ij 0 1 (int (nrows ?img)) (int (ncols ?img)) 3 2) + 3 div 2
            \<le> int (nrows ?img)
       \<and> 0 \<le> snd (idxPeak_ij 0 1 (int (nrows ?img)) (int (ncols ?img)) 3 2) - 2 div 2
       \<and> snd (idxPeak_ij 0 1 (int (nrows ?img)) (int (ncols ?img)) 3 2) + 2 div 2
            \<le> int (ncols ?img)
       \<and> (\<forall>crop. extract_harmonic ?ops ?img (3, 2) (0, 1) 1 True = Inr crop
             \<longrightarrow> shape crop = (nat (2 * (3 div 2)), nat (2 * (2 div 2))))
       \<and> ((\<forall>i<nrows ?img. \<forall>j<ncols ?img.
              \<exists>x. np_abs ?ops (item (if True then ?img else fft2_shift ?ops ?img) i j) = Fin x)
             \<longrightarrow> (\<exists>crop. extract_harmonic ?ops ?img (3, 2) (0, 1) 1 True = Inr crop))
       \<and> ((2 * (3 div 2) = (3::int) \<and> 2 * (2 div 2) = (2::int)) = (even (3::int) \<and> even (2::int)))"
    by (rule t) simp_all
  from mp [OF t' [THEN conjunct2, THEN conjunct2, THEN conjunct2, THEN conjunct2,
        THEN conjunct2, THEN conjunct1] fin]
  obtain crop where c: "extract_harmonic ?ops ?img (3, 2) (0, 1) 1 True = Inr crop" ..
  from t' [THEN conjunct2, THEN conjunct2, THEN conjunct2, THEN conjunct2, THEN conjunct1,
      rule_format, OF c]
  have s: "shape crop = (2, 2)" by simp
  have b: "0 \<le> fst (idxPeak_ij 0 1 6 6 3 2) - 3 div 2
   \<and> fst (idxPeak_ij 0 1 6 6 3 2) + 3 div 2 \<le> 6
   \<and> 0 \<le> snd (idxPeak_ij 0 1 6 6 3 2) - 2 div 2
   \<and> snd (idxPeak_ij 0 1 6 6 3 2) + 2 div 2 \<le> 6"
    using t' unfolding sz by simp
  from b c s show ?thesis by blast
qed




subsection \<open>Visibility estimator\<close>



subsection \<open>Substitution of the period of a one-dimensional grating\<close>

text \<open>
  extract_harmonic and exp_harm_period replace a non-positive period by the extent of the
  image on that axis, and so do single_grating_harmonic_images and
  single_2Dgrating_analyses through extract_harmonic (the transform keeps the shape).
\<close>

lemma extract_harmonic_substitution:
  "extract_harmonic ops img (periodVert, periodHor) hij s isFFT
   = extract_harmonic ops img (resolve_period periodVert (nrows img),
                               resolve_period periodHor (ncols img)) hij s isFFT"
  by (simp add: extract_harmonic_def resolve_period_def Let_def)

lemma exp_harm_period_substitution:
  "exp_harm_period ops img (periodVert, periodHor) hij s isFFT
   = exp_harm_period ops img (resolve_period periodVert (nrows img),
                              resolve_period periodHor (ncols img)) hij s isFFT"
  by (simp add: exp_harm_period_def resolve_period_def Let_def)

lemma single_grating_harmonic_images_substitution:
  assumes "shape (fft2_shift ops img) = shape img"
  shows "single_grating_harmonic_images ops img (periodVert, periodHor) s
   = single_grating_harmonic_images ops img (resolve_period periodVert (nrows img),
                                             resolve_period periodHor (ncols img)) s"
proof -
  have n: "nrows (fft2_shift ops img) = nrows img" "ncols (fft2_shift ops img) = ncols img"
    using assms by (simp_all add: shape_def)
  have "extract_harmonic ops (fft2_shift ops img) (periodVert, periodHor) hij s True
      = extract_harmonic ops (fft2_shift ops img)
          (resolve_period periodVert (nrows img), resolve_period periodHor (ncols img)) hij s True"
    for hij
    using extract_harmonic_substitution [of ops "fft2_shift ops img" periodVert periodHor hij s True]
    by (simp add: n)
  then show ?thesis
    by (simp add: single_grating_harmonic_images_def Let_def)
qed

lemma single_2Dgrating_analyses_substitution:
  assumes "shape (fft2_shift ops img) = shape img"
    and "\<forall>r. img_ref = Some r \<longrightarrow> shape (fft2_shift ops r) = shape img"
  shows "single_2Dgrating_analyses ops img img_ref (periodVert, periodHor) unwrapFlag
   = single_2Dgrating_analyses ops img img_ref (resolve_period periodVert (nrows img),
                                                resolve_period periodHor (ncols img)) unwrapFlag"
proof -
  have a: "single_grating_harmonic_images ops img (periodVert, periodHor) 10
   = single_grating_harmonic_images ops img (resolve_period periodVert (nrows img),
                                             resolve_period periodHor (ncols img)) 10"
    by (rule single_grating_harmonic_images_substitution [OF assms(1)])
  have b: "single_grating_harmonic_images ops r (periodVert, periodHor) 10
   = single_grating_harmonic_images ops r (resolve_period periodVert (nrows img),
                                           resolve_period periodHor (ncols img)) 10"
    if "img_ref = Some r" for r
  proof -
    have n: "nrows (fft2_shift ops r) = nrows img" "ncols (fft2_shift ops r) = ncols img"
      using assms(2) that by (simp_all add: shape_def)
    have "extract_harmonic ops (fft2_shift ops r) (periodVert, periodHor) hij 10 True
      = extract_harmonic ops (fft2_shift ops r)
          (resolve_period periodVert (nrows img), resolve_period periodHor (ncols img)) hij 10 True"
      for hij
      using extract_harmonic_substitution [of ops "fft2_shift ops r" periodVert periodHor hij 10 True]
      by (simp add: n)
    then show ?thesis
      by (simp add: single_grating_harmonic_images_def Let_def)
  qed
  show ?thesis
  proof (cases img_ref)
    case None
    then show ?thesis by (simp add: single_2Dgrating_analyses_def a)
  next
    case (Some r)
    then show ?thesis by (simp add: single_2Dgrating_analyses_def a b [OF Some])
  qed
qed

text \<open>
  C5. The claim also names visib_1st_harmonics, whose documentation promises the same
  substitution, but the function passes the periods to the peak locator as they are. On
  the 4 x 4 image of ones (its transform is 4 at (2, 2) and 0 elsewhere) with search
  radius 1, the periods (0, 2) give the visibilities (2, 0): the harmonic (1, 0) is
  looked for at the zero order itself. The periods (4, 2), with the number of rows
  written out, give (0, 0).
\<close>

theorem C5_period_substitution_visib:
  "visib_1st_harmonics (float_ops (\<lambda>a. spikes 4 4 [(2, 2)] (Fin 4) (Fin 0)) (\<lambda>a. a))
     (full 4 4 (Fin 1)) (0, 2) 1 = Inr (Fin 2, Fin 0)
   \<and> visib_1st_harmonics (float_ops (\<lambda>a. spikes 4 4 [(2, 2)] (Fin 4) (Fin 0)) (\<lambda>a. a))
     (full 4 4 (Fin 1)) (4, 2) 1 = Inr (Fin 0, Fin 0)
   \<and> nrows (full 4 4 (Fin 1) :: npfloat ndarray) = 4"
  by (simp add: eval_visib)

subsection \<open>Single-grating harmonic set\<close>




subsection \<open>Two-dimensional grating analysis\<close>

lemma map_arr_simps:
  "nrows (map_arr f a) = nrows a" "ncols (map_arr f a) = ncols a"
  "item (map_arr f a) i j = f (item a i j)"
  by (simp_all add: map_arr_def)

lemma elementwise_same:
  assumes "nrows a = nrows b" and "ncols a = ncols b"
  shows "elementwise f a b
       = Inr \<lparr>nrows = nrows a, ncols = ncols a, item = (\<lambda>i j. f (item a i j) (item b i j))\<rparr>"
  using assms by (simp add: elementwise_def bdim_def bidx_def)

lemma np_max_nonempty: "np_max a = Inr m \<Longrightarrow> 0 < nrows a \<and> 0 < ncols a"
proof -
  assume "np_max a = Inr m"
  then have "flat a \<noteq> []" by (auto simp: np_max_def split: list.splits)
  then have "positions a \<noteq> []" by (simp add: flat_def)
  then obtain p where "p \<in> set (positions a)" by (cases "positions a") auto
  then show ?thesis by (auto simp: set_positions)
qed

lemma idxPeak_ij_exp_nonempty:
  assumes "idxPeak_ij_exp ops F harV harH pV pH s = Inr p"
  shows "0 < nrows F \<and> 0 < ncols F"
proof -
  from assms obtain m where "np_max (masked_intensity ops F harV harH pV pH s) = Inr m"
    by (auto simp: idxPeak_ij_exp_masked split: sum.splits)
  from np_max_nonempty [OF this] show ?thesis by (simp add: masked_intensity_def)
qed

lemma extract_harmonic_shape:
  fixes harV harH :: int
  assumes r: "extract_harmonic ops F (periodVert, periodHor) (harV, harH) s True = Inr c"
    and har: "0 \<le> harV" "0 \<le> harH"
  shows "shape c = (nat (2 * (resolve_period periodVert (nrows F) div 2)),
                    nat (2 * (resolve_period periodHor (ncols F) div 2)))"
proof -
  let ?pV = "resolve_period periodVert (nrows F)"
  let ?pH = "resolve_period periodHor (ncols F)"
  from r have chk: "check_harmonic_inside_image harV harH (int (nrows F)) (int (ncols F)) ?pV ?pH
      = Inr ()"
    by (intro check_total) (auto simp: extract_harmonic_resolved split: if_splits)
  from r obtain p where "idxPeak_ij_exp ops F harV harH ?pV ?pH s = Inr p"
    by (auto simp: extract_harmonic_resolved split: if_splits sum.splits)
  from idxPeak_ij_exp_nonempty [OF this] have ne: "0 < nrows F" "0 < ncols F" by simp_all
  then have pos: "0 < ?pV" "0 < ?pH" by (simp_all add: resolve_period_def)
  have sh: "nrows (if True then F else fft2_shift ops F) = nrows F"
    "ncols (if True then F else fft2_shift ops F) = ncols F" by simp_all
  note ex = extract_harmonic_inside [of harV harH F periodVert periodHor True ops s,
      OF chk pos har sh]
  from r show ?thesis unfolding ex by (auto simp: shape_def split: sum.splits)
qed

lemma single_grating_harmonic_images_shapes:
  assumes r: "single_grating_harmonic_images ops img (periodVert, periodHor) s = Inr (a, b, c)"
    and lib: "\<forall>x. shape (ifft2_ishift ops x) = shape x"
  shows "shape a = (nat (2 * (resolve_period periodVert (nrows (fft2_shift ops img)) div 2)),
                    nat (2 * (resolve_period periodHor (ncols (fft2_shift ops img)) div 2)))
       \<and> shape b = shape a \<and> shape c = shape a"
proof -
  let ?F = "fft2_shift ops img"
  from r obtain c00 c01 c10 where
    e: "extract_harmonic ops ?F (periodVert, periodHor) (0, 0) s True = Inr c00"
       "extract_harmonic ops ?F (periodVert, periodHor) (0, 1) s True = Inr c01"
       "extract_harmonic ops ?F (periodVert, periodHor) (1, 0) s True = Inr c10"
    and a: "a = ifft2_ishift ops c00"
    and b: "b = (if all_isfinite ops c01 then ifft2_ishift ops c01 else c01)"
    and c: "c = (if all_isfinite ops c10 then ifft2_ishift ops c10 else c10)"
    by (auto simp: single_grating_harmonic_images_def Let_def seq_eq_Inr)
  note s00 = extract_harmonic_shape [OF e(1)] and s01 = extract_harmonic_shape [OF e(2)]
    and s10 = extract_harmonic_shape [OF e(3)]
  show ?thesis using s00 s01 s10 lib by (simp add: a b c)
qed

lemma zipwith_arr_simps:
  "nrows (zipwith_arr f a b) = nrows a" "ncols (zipwith_arr f a b) = ncols a"
  "item (zipwith_arr f a b) i j = f (item a i j) (item b i j)"
  by (simp_all add: zipwith_arr_def)

lemma elementwise_zipwith:
  "shape a = shape b \<Longrightarrow> elementwise f a b = Inr (zipwith_arr f a b)"
  by (simp add: elementwise_same zipwith_arr_def shape_def)

lemma shape_map_arr: "shape (map_arr f a) = shape a"
  by (simp add: shape_def map_arr_simps)

lemma shape_zipwith_arr: "shape (zipwith_arr f a b) = shape a"
  by (simp add: shape_def zipwith_arr_simps)

lemma analyses_core:
  assumes H: "single_grating_harmonic_images ops img hp 10 = Inr (h00, h01, h10)"
    and R: "(case img_ref of
               Some r \<Rightarrow> single_grating_harmonic_images ops r hp 10
             | None \<Rightarrow> Inr (full (nrows h00) (ncols h00) (exp_zero ops),
                            full (nrows h00) (ncols h00) (exp_zero ops),
                            full (nrows h00) (ncols h00) (exp_zero ops)))
            = Inr (r00, r01, r10)"
    and sh: "shape h01 = shape h00" "shape h10 = shape h00"
      "shape r00 = shape h00" "shape r01 = shape h00" "shape r10 = shape h00"
  shows "single_2Dgrating_analyses ops img img_ref hp unwrapFlag =
     Inr (zipwith_arr fdiv (map_arr (np_abs ops) h00) (map_arr (np_abs ops) r00),
          zipwith_arr fdiv (map_arr (np_abs ops) h01) (map_arr (np_abs ops) r01),
          zipwith_arr fdiv (map_arr (np_abs ops) h10) (map_arr (np_abs ops) r10),
          zipwith_arr fdiv
            (zipwith_arr fdiv (map_arr (np_abs ops) h01) (map_arr (np_abs ops) r01))
            (zipwith_arr fdiv (map_arr (np_abs ops) h00) (map_arr (np_abs ops) r00)),
          zipwith_arr fdiv
            (zipwith_arr fdiv (map_arr (np_abs ops) h10) (map_arr (np_abs ops) r10))
            (zipwith_arr fdiv (map_arr (np_abs ops) h00) (map_arr (np_abs ops) r00)),
          if unwrapFlag = 1
          then unwrap_phase ops
                 (zipwith_arr fsub (map_arr (np_angle ops) h01) (map_arr (np_angle ops) r01))
          else zipwith_arr fsub (map_arr (np_angle ops) h01) (map_arr (np_angle ops) r01),
          if unwrapFlag = 1
          then unwrap_phase ops
                 (zipwith_arr fsub (map_arr (np_angle ops) h10) (map_arr (np_angle ops) r10))
          else zipwith_arr fsub (map_arr (np_angle ops) h10) (map_arr (np_angle ops) r10))"
proof -
  have e: "elementwise fdiv (map_arr (np_abs ops) h00) (map_arr (np_abs ops) r00)
             = Inr (zipwith_arr fdiv (map_arr (np_abs ops) h00) (map_arr (np_abs ops) r00))"
    "elementwise fdiv (map_arr (np_abs ops) h01) (map_arr (np_abs ops) r01)
             = Inr (zipwith_arr fdiv (map_arr (np_abs ops) h01) (map_arr (np_abs ops) r01))"
    "elementwise fdiv (map_arr (np_abs ops) h10) (map_arr (np_abs ops) r10)
             = Inr (zipwith_arr fdiv (map_arr (np_abs ops) h10) (map_arr (np_abs ops) r10))"
    "elementwise fsub (map_arr (np_angle ops) h01) (map_arr (np_angle ops) r01)
             = Inr (zipwith_arr fsub (map_arr (np_angle ops) h01) (map_arr (np_angle ops) r01))"
    "elementwise fsub (map_arr (np_angle ops) h10) (map_arr (np_angle ops) r10)
             = Inr (zipwith_arr fsub (map_arr (np_angle ops) h10) (map_arr (np_angle ops) r10))"
    using sh by (simp_all add: elementwise_zipwith shape_map_arr)
  have d: "elementwise fdiv
             (zipwith_arr fdiv (map_arr (np_abs ops) h01) (map_arr (np_abs ops) r01))
             (zipwith_arr fdiv (map_arr (np_abs ops) h00) (map_arr (np_abs ops) r00))
           = Inr (zipwith_arr fdiv
             (zipwith_arr fdiv (map_arr (np_abs ops) h01) (map_arr (np_abs ops) r01))
             (zipwith_arr fdiv (map_arr (np_abs ops) h00) (map_arr (np_abs ops) r00)))"
    "elementwise fdiv
             (zipwith_arr fdiv (map_arr (np_abs ops) h10) (map_arr (np_abs ops) r10))
             (zipwith_arr fdiv (map_arr (np_abs ops) h00) (map_arr (np_abs ops) r00))
           = Inr (zipwith_arr fdiv
             (zipwith_arr fdiv (map_arr (np_abs ops) h10) (map_arr (np_abs ops) r10))
             (zipwith_arr fdiv (map_arr (np_abs ops) h00) (map_arr (np_abs ops) r00)))"
    using sh by (simp_all add: elementwise_zipwith shape_map_arr shape_zipwith_arr)
  have R': "(case img_ref of
               Some r \<Rightarrow> single_grating_harmonic_images ops r hp 10
             | None \<Rightarrow> (let ones = full (nrows (fst (h00, h01, h10))) (ncols (fst (h00, h01, h10)))
                                     (exp_zero ops)
                         in Inr (ones, ones, ones)))
            = Inr (r00, r01, r10)"
    using R by (cases img_ref) (auto simp: Let_def)
  show ?thesis
    unfolding single_2Dgrating_analyses_def H seq_Inr R'
    by (simp only: fst_conv snd_conv e d seq_Inr Let_def)
qed

lemma fdiv_one: "fdiv x (Fin 1) = x"
  by (cases x) simp_all

lemma fsub_zero: "fsub x (Fin 0) = x"
  by (cases x) simp_all

text \<open>
  C7. For a sample image and a reference image of the same shape (the transforms keep the
  shape of an array), when the harmonic images (h00, h01, h10) of the sample and
  (r00, r01, r10) of the reference are returned, single_2Dgrating_analyses returns the
  7-tuple (int00, int01, int10, darkField01, darkField10, arg01, arg10) of arrays of the
  shape of h00 with, item by item, int_ij = |h_ij| / |r_ij|, darkField01 = int01 / int00,
  darkField10 = int10 / int00, arg01 = angle(h01) - angle(r01) and
  arg10 = angle(h10) - angle(r10); the phase unwrapping is applied to arg01 and arg10
  exactly when unwrapFlag is 1 (Python's True).
\<close>

theorem C7_single_2Dgrating_analyses:
  fixes harmonicPeriod :: "int \<times> int" and unwrapFlag :: int
    and img img_ref :: "'a ndarray" and ops :: "'a numpy_ops"
  assumes same: "shape img_ref = shape img"
    and fwd: "shape (fft2_shift ops img) = shape img"
      "shape (fft2_shift ops img_ref) = shape img_ref"
    and bwd: "\<forall>a. shape (ifft2_ishift ops a) = shape a"
    and H: "single_grating_harmonic_images ops img harmonicPeriod 10 = Inr (h00, h01, h10)"
    and R: "single_grating_harmonic_images ops img_ref harmonicPeriod 10 = Inr (r00, r01, r10)"
  shows "\<exists>int00 int01 int10 darkField01 darkField10 arg01 arg10.
           single_2Dgrating_analyses ops img (Some img_ref) harmonicPeriod unwrapFlag
             = Inr (int00, int01, int10, darkField01, darkField10,
                    if unwrapFlag = 1 then unwrap_phase ops arg01 else arg01,
                    if unwrapFlag = 1 then unwrap_phase ops arg10 else arg10)
           \<and> shape int00 = shape h00 \<and> shape int01 = shape h00 \<and> shape int10 = shape h00
           \<and> shape darkField01 = shape h00 \<and> shape darkField10 = shape h00
           \<and> shape arg01 = shape h00 \<and> shape arg10 = shape h00
           \<and> (\<forall>i<nrows h00. \<forall>j<ncols h00.
                 item int00 i j = fdiv (np_abs ops (item h00 i j)) (np_abs ops (item r00 i j))
                 \<and> item int01 i j = fdiv (np_abs ops (item h01 i j)) (np_abs ops (item r01 i j))
                 \<and> item int10 i j = fdiv (np_abs ops (item h10 i j)) (np_abs ops (item r10 i j))
                 \<and> item darkField01 i j = fdiv (item int01 i j) (item int00 i j)
                 \<and> item darkField10 i j = fdiv (item int10 i j) (item int00 i j)
                 \<and> item arg01 i j
                     = fsub (np_angle ops (item h01 i j)) (np_angle ops (item r01 i j))
                 \<and> item arg10 i j
                     = fsub (np_angle ops (item h10 i j)) (np_angle ops (item r10 i j)))"
proof -
  obtain pV pH where hp: "harmonicPeriod = (pV, pH)" by (cases harmonicPeriod)
  have F: "nrows (fft2_shift ops img_ref) = nrows (fft2_shift ops img)"
    "ncols (fft2_shift ops img_ref) = ncols (fft2_shift ops img)"
    using same fwd by (simp_all add: shape_def)
  note sH = single_grating_harmonic_images_shapes [OF H [unfolded hp] bwd]
  note sR = single_grating_harmonic_images_shapes [OF R [unfolded hp] bwd, unfolded F]
  have sh: "shape h01 = shape h00" "shape h10 = shape h00"
      "shape r00 = shape h00" "shape r01 = shape h00" "shape r10 = shape h00"
    using sH sR by simp_all
  have R': "(case Some img_ref of
               Some r \<Rightarrow> single_grating_harmonic_images ops r harmonicPeriod 10
             | None \<Rightarrow> Inr (full (nrows h00) (ncols h00) (exp_zero ops),
                            full (nrows h00) (ncols h00) (exp_zero ops),
                            full (nrows h00) (ncols h00) (exp_zero ops)))
            = Inr (r00, r01, r10)"
    using R by simp
  note c = analyses_core [OF H R' sh, of unwrapFlag]
  let ?int00 = "zipwith_arr fdiv (map_arr (np_abs ops) h00) (map_arr (np_abs ops) r00)"
  let ?int01 = "zipwith_arr fdiv (map_arr (np_abs ops) h01) (map_arr (np_abs ops) r01)"
  let ?int10 = "zipwith_arr fdiv (map_arr (np_abs ops) h10) (map_arr (np_abs ops) r10)"
  let ?arg01 = "zipwith_arr fsub (map_arr (np_angle ops) h01) (map_arr (np_angle ops) r01)"
  let ?arg10 = "zipwith_arr fsub (map_arr (np_angle ops) h10) (map_arr (np_angle ops) r10)"
  have shapes: "shape ?int00 = shape h00" "shape ?int01 = shape h00" "shape ?int10 = shape h00"
    "shape (zipwith_arr fdiv ?int01 ?int00) = shape h00"
    "shape (zipwith_arr fdiv ?int10 ?int00) = shape h00"
    "shape ?arg01 = shape h00" "shape ?arg10 = shape h00"
    by (simp_all add: shape_zipwith_arr shape_map_arr sh)
  have items: "\<forall>i<nrows h00. \<forall>j<ncols h00.
       item ?int00 i j = fdiv (np_abs ops (item h00 i j)) (np_abs ops (item r00 i j))
       \<and> item ?int01 i j = fdiv (np_abs ops (item h01 i j)) (np_abs ops (item r01 i j))
       \<and> item ?int10 i j = fdiv (np_abs ops (item h10 i j)) (np_abs ops (item r10 i j))
       \<and> item (zipwith_arr fdiv ?int01 ?int00) i j = fdiv (item ?int01 i j) (item ?int00 i j)
       \<and> item (zipwith_arr fdiv ?int10 ?int00) i j = fdiv (item ?int10 i j) (item ?int00 i j)
       \<and> item ?arg01 i j = fsub (np_angle ops (item h01 i j)) (np_angle ops (item r01 i j))
       \<and> item ?arg10 i j = fsub (np_angle ops (item h10 i j)) (np_angle ops (item r10 i j))"
    by (simp add: zipwith_arr_simps map_arr_simps)
  show ?thesis
    by (intro exI conjI) (rule c shapes items)+
qed

text \<open>
  The 6 x 6 grating above against a flat reference image of ones, whose transform is 6
  at (3, 3) and 0 elsewhere, with periods (2, 2) and the unwrap flag set (the unwrapping
  of this instance is the identity): at the item (1, 1) of the crops the zero-order ratio
  is 8 / 6, and the first-harmonic ratio 4 / 0 is inf.
\<close>

theorem C7_single_2Dgrating_analyses_witness:
  "\<exists>int00 int01 int10 darkField01 darkField10 arg01 arg10.
     single_2Dgrating_analyses
       (float_ops (\<lambda>a. if item a 0 0 = Fin 1 then spikes 6 6 [(3, 3)] (Fin 6) (Fin 0)
                        else spectrum6) (\<lambda>a. a))
       grating6 (Some (full 6 6 (Fin 1))) (2, 2) 1
       = Inr (int00, int01, int10, darkField01, darkField10, arg01, arg10)
     \<and> shape int00 = (2, 2)
     \<and> item int00 1 1 = Fin (4 / 3) \<and> item int01 1 1 = PInf
     \<and> item darkField01 1 1 = PInf \<and> item arg01 1 1 = Fin 0"
proof -
  let ?flat = "spikes 6 6 [(3, 3)] (Fin 6) (Fin 0) :: npfloat ndarray"
  let ?ops = "float_ops (\<lambda>a. if item a 0 0 = Fin 1 then ?flat else spectrum6) (\<lambda>a. a)"
  let ?ref = "full 6 6 (Fin 1) :: npfloat ndarray"
  have same: "shape ?ref = shape grating6"
    by (simp add: shape_def full_def grating6_def of_rows_def)
  have fwd: "shape (fft2_shift ?ops grating6) = shape grating6"
    "shape (fft2_shift ?ops ?ref) = shape ?ref"
    by (simp_all add: shape_def full_def grating6_def spectrum6_def of_rows_def float_ops_def
        spikes_def)
  have bwd: "\<forall>a. shape (ifft2_ishift ?ops a) = shape a" by (simp add: float_ops_def)
  have H: "single_grating_harmonic_images ?ops grating6 (2, 2) 10
      = Inr (getslice spectrum6 2 4 2 4, getslice spectrum6 2 4 4 6, getslice spectrum6 4 6 2 4)"
    by (simp add: eval_sghi)
  have R: "single_grating_harmonic_images ?ops ?ref (2, 2) 10
      = Inr (getslice ?flat 2 4 2 4, getslice ?flat 2 4 4 6, getslice ?flat 4 6 2 4)"
    by (simp add: eval_sghi)
  from C7_single_2Dgrating_analyses [OF same fwd bwd H R, of 1]
  obtain int00 int01 int10 darkField01 darkField10 arg01 arg10 where
    r: "single_2Dgrating_analyses ?ops grating6 (Some ?ref) (2, 2) 1
       = Inr (int00, int01, int10, darkField01, darkField10,
              unwrap_phase ?ops arg01, unwrap_phase ?ops arg10)"
    and s: "shape int00 = shape (getslice spectrum6 2 4 2 4)"
    and p: "\<forall>i<nrows (getslice spectrum6 2 4 2 4). \<forall>j<ncols (getslice spectrum6 2 4 2 4).
        item int00 i j = fdiv (np_abs ?ops (item (getslice spectrum6 2 4 2 4) i j))
                              (np_abs ?ops (item (getslice ?flat 2 4 2 4) i j))
        \<and> item int01 i j = fdiv (np_abs ?ops (item (getslice spectrum6 2 4 4 6) i j))
                                (np_abs ?ops (item (getslice ?flat 2 4 4 6) i j))
        \<and> item int10 i j = fdiv (np_abs ?ops (item (getslice spectrum6 4 6 2 4) i j))
                                (np_abs ?ops (item (getslice ?flat 4 6 2 4) i j))
        \<and> item darkField01 i j = fdiv (item int01 i j) (item int00 i j)
        \<and> item darkField10 i j = fdiv (item int10 i j) (item int00 i j)
        \<and> item arg01 i j = fsub (np_angle ?ops (item (getslice spectrum6 2 4 4 6) i j))
                                 (np_angle ?ops (item (getslice ?flat 2 4 4 6) i j))
        \<and> item arg10 i j = fsub (np_angle ?ops (item (getslice spectrum6 4 6 2 4) i j))
                                 (np_angle ?ops (item (getslice ?flat 4 6 2 4) i j))"
    by auto
  have u: "unwrap_phase ?ops = (\<lambda>a. a)" by (simp add: float_ops_def)
  have n: "1 < nrows (getslice spectrum6 2 4 2 4)" "1 < ncols (getslice spectrum6 2 4 2 4)"
    by (simp_all add: eval_sghi)
  have sz: "shape (getslice spectrum6 2 4 2 4) = (2, 2)" by (simp add: eval_sghi)
  from p [rule_format, OF n]
  have "item int00 1 1 = Fin (4 / 3) \<and> item int01 1 1 = PInf
     \<and> item darkField01 1 1 = PInf \<and> item arg01 1 1 = Fin 0"
    by (simp add: eval_sghi)
  with r s sz show ?thesis unfolding u by auto
qed

text \<open>
  C9. Without a reference image, when the harmonic images (h00, h01, h10) of the sample
  are returned, single_2Dgrating_analyses returns int00 = |h00|, int01 = |h01|,
  int10 = |h10|, darkField01 = |h01| / |h00|, darkField10 = |h10| / |h00| and, before
  the unwrapping, arg01 = angle(h01) and arg10 = angle(h10), item by item: the three
  reference harmonics are the array of the shape of h00 filled with exp(0), whose
  magnitude is 1 and whose angle is 0.
\<close>

theorem C9_no_reference:
  fixes harmonicPeriod :: "int \<times> int" and unwrapFlag :: int
    and img :: "'a ndarray" and ops :: "'a numpy_ops"
  assumes bwd: "\<forall>a. shape (ifft2_ishift ops a) = shape a"
    and one: "np_abs ops (exp_zero ops) = Fin 1" "np_angle ops (exp_zero ops) = Fin 0"
    and H: "single_grating_harmonic_images ops img harmonicPeriod 10 = Inr (h00, h01, h10)"
  shows "\<exists>int00 int01 int10 darkField01 darkField10 arg01 arg10.
           single_2Dgrating_analyses ops img None harmonicPeriod unwrapFlag
             = Inr (int00, int01, int10, darkField01, darkField10,
                    if unwrapFlag = 1 then unwrap_phase ops arg01 else arg01,
                    if unwrapFlag = 1 then unwrap_phase ops arg10 else arg10)
           \<and> shape int00 = shape h00 \<and> shape int01 = shape h00 \<and> shape int10 = shape h00
           \<and> shape darkField01 = shape h00 \<and> shape darkField10 = shape h00
           \<and> shape arg01 = shape h00 \<and> shape arg10 = shape h00
           \<and> (\<forall>i<nrows h00. \<forall>j<ncols h00.
                 item int00 i j = np_abs ops (item h00 i j)
                 \<and> item int01 i j = np_abs ops (item h01 i j)
                 \<and> item int10 i j = np_abs ops (item h10 i j)
                 \<and> item darkField01 i j
                     = fdiv (np_abs ops (item h01 i j)) (np_abs ops (item h00 i j))
                 \<and> item darkField10 i j
                     = fdiv (np_abs ops (item h10 i j)) (np_abs ops (item h00 i j))
                 \<and> item arg01 i j = np_angle ops (item h01 i j)
                 \<and> item arg10 i j = np_angle ops (item h10 i j))"
proof -
  obtain pV pH where hp: "harmonicPeriod = (pV, pH)" by (cases harmonicPeriod)
  let ?ones = "full (nrows h00) (ncols h00) (exp_zero ops)"
  note sH = single_grating_harmonic_images_shapes [OF H [unfolded hp] bwd]
  have sh: "shape h01 = shape h00" "shape h10 = shape h00"
      "shape ?ones = shape h00" "shape ?ones = shape h00" "shape ?ones = shape h00"
    using sH by (simp_all add: shape_def full_def)
  have R': "(case None of
               Some r \<Rightarrow> single_grating_harmonic_images ops r harmonicPeriod 10
             | None \<Rightarrow> Inr (?ones, ?ones, ?ones))
            = Inr (?ones, ?ones, ?ones)"
    by simp
  note c = analyses_core [OF H R' sh, of unwrapFlag]
  have it: "item ?ones i j = exp_zero ops" for i j by (simp add: full_def)
  let ?int00 = "zipwith_arr fdiv (map_arr (np_abs ops) h00) (map_arr (np_abs ops) ?ones)"
  let ?int01 = "zipwith_arr fdiv (map_arr (np_abs ops) h01) (map_arr (np_abs ops) ?ones)"
  let ?int10 = "zipwith_arr fdiv (map_arr (np_abs ops) h10) (map_arr (np_abs ops) ?ones)"
  let ?arg01 = "zipwith_arr fsub (map_arr (np_angle ops) h01) (map_arr (np_angle ops) ?ones)"
  let ?arg10 = "zipwith_arr fsub (map_arr (np_angle ops) h10) (map_arr (np_angle ops) ?ones)"
  have shapes: "shape ?int00 = shape h00" "shape ?int01 = shape h00" "shape ?int10 = shape h00"
    "shape (zipwith_arr fdiv ?int01 ?int00) = shape h00"
    "shape (zipwith_arr fdiv ?int10 ?int00) = shape h00"
    "shape ?arg01 = shape h00" "shape ?arg10 = shape h00"
    by (simp_all add: shape_zipwith_arr shape_map_arr sh(1,2))
  have items: "\<forall>i<nrows h00. \<forall>j<ncols h00.
       item ?int00 i j = np_abs ops (item h00 i j)
       \<and> item ?int01 i j = np_abs ops (item h01 i j)
       \<and> item ?int10 i j = np_abs ops (item h10 i j)
       \<and> item (zipwith_arr fdiv ?int01 ?int00) i j
           = fdiv (np_abs ops (item h01 i j)) (np_abs ops (item h00 i j))
       \<and> item (zipwith_arr fdiv ?int10 ?int00) i j
           = fdiv (np_abs ops (item h10 i j)) (np_abs ops (item h00 i j))
       \<and> item ?arg01 i j = np_angle ops (item h01 i j)
       \<and> item ?arg10 i j = np_angle ops (item h10 i j)"
    by (simp add: zipwith_arr_simps map_arr_simps it one fdiv_one fsub_zero)
  show ?thesis
    by (intro exI conjI) (rule c shapes items)+
qed

text \<open>
  The 6 x 6 grating above with periods (2, 2), no reference and no unwrapping: at the
  item (1, 1) of the crops the maps are the magnitudes 8, 4 and 2 themselves.
\<close>

theorem C9_no_reference_witness:
  "\<exists>int00 int01 int10 darkField01 darkField10 arg01 arg10.
     single_2Dgrating_analyses (float_ops (\<lambda>a. spectrum6) (\<lambda>a. a)) grating6 None (2, 2) 0
       = Inr (int00, int01, int10, darkField01, darkField10, arg01, arg10)
     \<and> item int00 1 1 = Fin 8 \<and> item int01 1 1 = Fin 4 \<and> item int10 1 1 = Fin 2
     \<and> item darkField01 1 1 = Fin (1 / 2) \<and> item arg01 1 1 = Fin 0"
proof -
  let ?ops = "float_ops (\<lambda>a. spectrum6) (\<lambda>a. a)"
  have bwd: "\<forall>a. shape (ifft2_ishift ?ops a) = shape a" by (simp add: float_ops_def)
  have one: "np_abs ?ops (exp_zero ?ops) = Fin 1" "np_angle ?ops (exp_zero ?ops) = Fin 0"
    by (simp_all add: float_ops_def)
  have H: "single_grating_harmonic_images ?ops grating6 (2, 2) 10
      = Inr (getslice spectrum6 2 4 2 4, getslice spectrum6 2 4 4 6, getslice spectrum6 4 6 2 4)"
    by (simp add: eval_sghi)
  from C9_no_reference [OF bwd one H, of 0]
  obtain int00 int01 int10 darkField01 darkField10 arg01 arg10 where
    r: "single_2Dgrating_analyses ?ops grating6 None (2, 2) 0
       = Inr (int00, int01, int10, darkField01, darkField10, arg01, arg10)"
    and p: "\<forall>i<nrows (getslice spectrum6 2 4 2 4). \<forall>j<ncols (getslice spectrum6 2 4 2 4).
                 item int00 i j = np_abs ?ops (item (getslice spectrum6 2 4 2 4) i j)
                 \<and> item int01 i j = np_abs ?ops (item (getslice spectrum6 2 4 4 6) i j)
                 \<and> item int10 i j = np_abs ?ops (item (getslice spectrum6 4 6 2 4) i j)
                 \<and> item darkField01 i j
                     = fdiv (np_abs ?ops (item (getslice spectrum6 2 4 4 6) i j))
                            (np_abs ?ops (item (getslice spectrum6 2 4 2 4) i j))
                 \<and> item darkField10 i j
                     = fdiv (np_abs ?ops (item (getslice spectrum6 4 6 2 4) i j))
                            (np_abs ?ops (item (getslice spectrum6 2 4 2 4) i j))
                 \<and> item arg01 i j = np_angle ?ops (item (getslice spectrum6 2 4 4 6) i j)
                 \<and> item arg10 i j = np_angle ?ops (item (getslice spectrum6 4 6 2 4) i j)"
    by auto
  have n: "1 < nrows (getslice spectrum6 2 4 2 4)" "1 < ncols (getslice spectrum6 2 4 2 4)"
    by (simp_all add: eval_sghi)
  from p [rule_format, OF n]
  have "item int00 1 1 = Fin 8 \<and> item int01 1 1 = Fin 4 \<and> item int10 1 1 = Fin 2
     \<and> item darkField01 1 1 = Fin (1 / 2) \<and> item arg01 1 1 = Fin 0"
    by (simp add: eval_sghi)
  with r show ?thesis by blast
qed

end
